theory Spec2Isabelle
  imports Main "HOL-Library.Sublist"
begin

section \<open>Python text\<close>

text \<open>
  A Python \<open>str\<close> is a sequence of Unicode code points. It is modelled as a list of
  code points (natural numbers), so that \<open>len\<close>, \<open>strip\<close> and \<open>splitlines\<close> count
  what Python counts. A literal of the source is written \<open>U ''...''\<close>.
\<close>

type_synonym ustr = "nat list"

abbreviation U :: "string \<Rightarrow> ustr" where
  "U s \<equiv> map of_char s"

text \<open>
  \<open>str.isspace\<close> on one code point: the characters \<open>str.strip()\<close> removes.
  Tab to carriage return, the four separators, space, NEL, NBSP, and the Unicode
  space separators.
\<close>

definition is_space :: "nat \<Rightarrow> bool" where
  "is_space c \<longleftrightarrow>
     (9 \<le> c \<and> c \<le> 13) \<or> (28 \<le> c \<and> c \<le> 32) \<or> c = 133 \<or> c = 160 \<or> c = 5760 \<or>
     (8192 \<le> c \<and> c \<le> 8202) \<or> c = 8232 \<or> c = 8233 \<or> c = 8239 \<or> c = 8287 \<or> c = 12288"

text \<open>The line boundaries of \<open>str.splitlines()\<close>.\<close>

definition is_linebreak :: "nat \<Rightarrow> bool" where
  "is_linebreak c \<longleftrightarrow>
     (10 \<le> c \<and> c \<le> 13) \<or> (28 \<le> c \<and> c \<le> 30) \<or> c = 133 \<or> c = 8232 \<or> c = 8233"

text \<open>\<open>s.strip()\<close>: leading and trailing whitespace removed.\<close>

definition strip :: "ustr \<Rightarrow> ustr" where
  "strip s = rev (dropWhile is_space (rev (dropWhile is_space s)))"

text \<open>
  \<open>s.splitlines()\<close>: the text is cut at every line boundary, \<open>\r\n\<close> counting as one;
  the boundaries are dropped and a final boundary opens no further (empty) line.
  The first argument is the line read so far.
\<close>

fun splitlines_from :: "ustr \<Rightarrow> ustr \<Rightarrow> ustr list" where
  "splitlines_from cur [] = (if cur = [] then [] else [cur])"
| "splitlines_from cur [c] = (if is_linebreak c then [cur] else [cur @ [c]])"
| "splitlines_from cur (c # d # cs) =
     (if c = 13 \<and> d = 10 then cur # splitlines_from [] cs
      else if is_linebreak c then cur # splitlines_from [] (d # cs)
      else splitlines_from (cur @ [c]) (d # cs))"

definition splitlines :: "ustr \<Rightarrow> ustr list" where
  "splitlines s = splitlines_from [] s"

text \<open>\<open>sub in s\<close> for strings: \<open>sub\<close> occurs in \<open>s\<close> as a contiguous piece.\<close>

fun str_in :: "ustr \<Rightarrow> ustr \<Rightarrow> bool" where
  "str_in sub [] = (sub = [])"
| "str_in sub (c # cs) = (prefix sub (c # cs) \<or> str_in sub cs)"


section \<open>The timestamp\<close>

text \<open>
  \<open>time.strftime("%Y%m%d_%H%M%S")\<close> formats the local time: the year in decimal,
  then month, day, hour, minute and second, each in two digits with a leading zero.
\<close>

record struct_time =
  tm_year :: nat
  tm_mon :: nat
  tm_mday :: nat
  tm_hour :: nat
  tm_min :: nat
  tm_sec :: nat

function decimal :: "nat \<Rightarrow> ustr" where
  "decimal n = (if n < 10 then [48 + n] else decimal (n div 10) @ [48 + n mod 10])"
  by pat_completeness auto
termination
  by (relation "measure id") auto

declare decimal.simps [simp del]

definition pad2 :: "nat \<Rightarrow> ustr" where
  "pad2 n = (if n < 10 then 48 # decimal n else decimal n)"

definition strftime_Ymd_HMS :: "struct_time \<Rightarrow> ustr" where
  "strftime_Ymd_HMS t =
     decimal (tm_year t) @ pad2 (tm_mon t) @ pad2 (tm_mday t) @ U ''_'' @
     pad2 (tm_hour t) @ pad2 (tm_min t) @ pad2 (tm_sec t)"

section \<open>The outside world\<close>

text \<open>
  The program drives an external tool. What the tool, the clock and the operating
  system answer is not decided by the program, so it is a parameter of the model: each
  call takes the world before it and gives its outcome and the world after it.
  \<open>subprocess.run\<close> either completes with the decoded standard output and standard
  error, or raises an \<open>Exception\<close> whose \<open>str(e)\<close> is carried by \<open>Raised\<close>;
  \<open>subprocess.Popen\<close> either gives a process handle or raises.
  \<open>local_files\<close> observes the names present in the working directory.
\<close>

datatype run_outcome = Completed ustr ustr | Raised ustr

datatype popen_outcome = Started nat | PopenRaised ustr

record 'w env =
  subprocess_run :: "ustr list \<Rightarrow> 'w \<Rightarrow> run_outcome \<times> 'w"
  subprocess_Popen :: "ustr list \<Rightarrow> 'w \<Rightarrow> popen_outcome \<times> 'w"
  proc_terminate :: "nat \<Rightarrow> 'w \<Rightarrow> 'w"
  time_sleep :: "nat \<Rightarrow> 'w \<Rightarrow> 'w"
  time_localtime :: "'w \<Rightarrow> struct_time"
  local_files :: "'w \<Rightarrow> ustr set"

section \<open>Program state and observable effects\<close>

text \<open>
  Everything the program does to the outside is logged in order: commands run (with
  their outcome), processes spawned and terminated, sleeps (in milliseconds), message
  boxes, lines printed, threads started.
\<close>

datatype event =
    Run "ustr list" run_outcome
  | Popen "ustr list" popen_outcome
  | Terminate nat
  | Sleep nat
  | ShowError ustr ustr
  | ShowWarning ustr ustr
  | ShowInfo ustr ustr
  | Print ustr
  | ThreadStart nat

text \<open>
  A worker thread running \<open>_record_worker\<close>, by the point it has reached: not yet
  entered, in the polling loop (holding \<open>proc\<close> and \<open>out_filename\<close>), past the
  loop, before the pull, before the device-side delete, returned.
\<close>

datatype worker =
    Created
  | Polling nat ustr
  | Stopping nat ustr
  | Pulling ustr
  | Cleaning
  | Finished

text \<open>
  The globals \<open>recording\<close> and \<open>record_thread\<close> (the index of the thread object
  last stored, \<open>None\<close> before the first start); whether \<open>root\<close> and
  \<open>status_label\<close> are set; the label updates handed to \<open>root.after\<close>; all threads
  started so far; the log; the world.
\<close>

record 'w state =
  recording :: bool
  record_thread :: "nat option"
  ui_up :: bool
  label_updates :: "ustr list"
  workers :: "worker list"
  trace :: "event list"
  world :: 'w

definition ADB_BIN :: ustr where
  "ADB_BIN = U ''adbb''"

definition emit :: "event \<Rightarrow> 'w state \<Rightarrow> 'w state" where
  "emit e s = s\<lparr>trace := trace s @ [e]\<rparr>"

definition set_status :: "ustr \<Rightarrow> 'w state \<Rightarrow> 'w state" where
  "set_status text s =
     emit (Print text)
       (if ui_up s then s\<lparr>label_updates := label_updates s @ [text]\<rparr> else s)"

section \<open>Command executor and device check\<close>

text \<open>
  What \<open>adb_cmd\<close> returns for an outcome of \<open>subprocess.run\<close>: the two trimmed
  streams, or the empty output with \<open>str(e)\<close> from the \<open>except\<close> branch.
\<close>

fun returned :: "run_outcome \<Rightarrow> ustr \<times> ustr" where
  "returned (Completed out err) = (strip out, strip err)"
| "returned (Raised e) = ([], e)"

definition adb_cmd :: "'w env \<Rightarrow> ustr list \<Rightarrow> 'w state \<Rightarrow> (ustr \<times> ustr) \<times> 'w state" where
  "adb_cmd env args_list s =
     (case subprocess_run env (ADB_BIN # args_list) (world s) of
        (oc, w') \<Rightarrow> (returned oc, emit (Run (ADB_BIN # args_list) oc) (s\<lparr>world := w'\<rparr>)))"

definition check_device_connected :: "'w env \<Rightarrow> 'w state \<Rightarrow> bool \<times> 'w state" where
  "check_device_connected env s =
     (case adb_cmd env [U ''devices''] s of
        ((out, err), s1) \<Rightarrow>
          if err \<noteq> [] then
            (False, emit (ShowError (U ''ADBB Error'')
                            (ADB_BIN @ U '' devices failed:\<newline>'' @ err)) s1)
          else
            let lines = splitlines out;
                devices = filter (\<lambda>ln. strip ln \<noteq> [] \<and> str_in (U ''device'') ln) (drop 1 lines)
            in if devices = [] then
                 (False, emit (ShowWarning (U ''No Device'')
                                 (U ''No '' @ ADB_BIN @
                                  U '' device detected.\<newline>\<newline>Check USB/debugging and try again.'')) s1)
               else (True, s1))"

section \<open>Screen recording\<close>

definition device_tmp_record :: ustr where
  "device_tmp_record = U ''/sdcard/tre_record_tmp.mp4''"

definition start_recording :: "'w env \<Rightarrow> 'w state \<Rightarrow> 'w state" where
  "start_recording env s =
     (if recording s then
        emit (ShowInfo (U ''Info'') (U ''Recording is already in progress.'')) s
      else
        case check_device_connected env s of
          (ok, s1) \<Rightarrow>
            if \<not> ok then s1
            else
              let tid = length (workers s1);
                  s2 = s1\<lparr>recording := True\<rparr>;
                  s3 = s2\<lparr>record_thread := Some tid\<rparr>;
                  s4 = emit (ThreadStart tid) (s3\<lparr>workers := workers s3 @ [Created]\<rparr>)
              in set_status (U ''Recording: ON'') s4)"

definition stop_recording :: "'w state \<Rightarrow> 'w state" where
  "stop_recording s =
     (if \<not> recording s then
        emit (ShowInfo (U ''Info'') (U ''No recording is currently running.'')) s
      else set_status (U ''Recording: Stopping...'') (s\<lparr>recording := False\<rparr>))"

text \<open>
  \<open>_record_worker\<close>, cut where the other thread can run in between: up to the loop,
  one test of the loop condition (with its sleep), terminate and wait, pull, delete.
  Each piece takes the worker's position and the shared state and gives both back.
\<close>

fun record_worker :: "'w env \<Rightarrow> worker \<Rightarrow> 'w state \<Rightarrow> worker \<times> 'w state" where
  "record_worker env Created s =
     (let timestamp = strftime_Ymd_HMS (time_localtime env (world s));
          out_filename = U ''record_'' @ timestamp @ U ''.mp4'';
          s1 = set_status (U ''Starting '' @ ADB_BIN @ U '' screenrecord...'') s;
          argv = [ADB_BIN, U ''shell'', U ''screenrecord'', device_tmp_record]
      in case subprocess_Popen env argv (world s1) of
           (PopenRaised e, w') \<Rightarrow>
             (Finished,
              set_status (U ''Failed to start screenrecord: '' @ e)
                ((emit (Popen argv (PopenRaised e)) (s1\<lparr>world := w'\<rparr>))\<lparr>recording := False\<rparr>))
         | (Started proc, w') \<Rightarrow>
             (Polling proc out_filename, emit (Popen argv (Started proc)) (s1\<lparr>world := w'\<rparr>)))"
| "record_worker env (Polling proc out_filename) s =
     (if recording s then
        (Polling proc out_filename, emit (Sleep 200) (s\<lparr>world := time_sleep env 200 (world s)\<rparr>))
      else (Stopping proc out_filename, s))"
| "record_worker env (Stopping proc out_filename) s =
     (let s1 = set_status (U ''Stopping recording, please wait...'') s;
          s2 = emit (Terminate proc) (s1\<lparr>world := proc_terminate env proc (world s1)\<rparr>);
          s3 = emit (Sleep 1000) (s2\<lparr>world := time_sleep env 1000 (world s2)\<rparr>)
      in (Pulling out_filename, s3))"
| "record_worker env (Pulling out_filename) s =
     (let s1 = set_status (U ''Pulling video from device...'') s
      in case adb_cmd env [U ''pull'', device_tmp_record, out_filename] s1 of
           ((stdout, stderr), s2) \<Rightarrow>
             (Cleaning,
              if stderr \<noteq> [] then set_status (U ''Pull error: '' @ stderr) s2
              else set_status (U ''Saved recording: '' @ out_filename) s2))"
| "record_worker env Cleaning s =
     (Finished, snd (adb_cmd env [U ''shell'', U ''rm'', device_tmp_record] s))"
| "record_worker env Finished s = (Finished, s)"

section \<open>Screenshot\<close>

definition device_tmp_screenshot :: ustr where
  "device_tmp_screenshot = U ''/sdcard/tre_screenshot_tmp.png''"

definition take_screenshot :: "'w env \<Rightarrow> 'w state \<Rightarrow> 'w state" where
  "take_screenshot env s =
     (case check_device_connected env s of
        (ok, s1) \<Rightarrow>
          if \<not> ok then s1
          else
            let timestamp = strftime_Ymd_HMS (time_localtime env (world s1));
                out_filename = U ''screenshot_'' @ timestamp @ U ''.png'';
                s2 = set_status (U ''Capturing screenshot on device...'') s1
            in case adb_cmd env [U ''shell'', U ''screencap'', U ''-p'', device_tmp_screenshot] s2 of
                 ((stdout, stderr), s3) \<Rightarrow>
                   if stderr \<noteq> [] then
                     emit (ShowError (U ''ADBB Error'') (U ''screencap failed:\<newline>'' @ stderr)) s3
                   else
                     let s4 = set_status (U ''Pulling screenshot from device...'') s3
                     in case adb_cmd env [U ''pull'', device_tmp_screenshot, out_filename] s4 of
                          ((stdout, stderr), s5) \<Rightarrow>
                            if stderr \<noteq> [] then
                              emit (ShowError (U ''ADBB Error'') (U ''pull failed:\<newline>'' @ stderr)) s5
                            else
                              let s6 = snd (adb_cmd env [U ''shell'', U ''rm'', device_tmp_screenshot] s5)
                              in set_status (U ''Saved screenshot: '' @ out_filename) s6)"

section \<open>Interleaving of the interface thread and the workers\<close>

text \<open>
  The three button callbacks run on the interface thread; a worker advances by one
  piece at a time. A schedule is a list of such actions in the order they happen.
\<close>

datatype action = StartRecording | StopRecording | TakeScreenshot | WorkerStep nat

definition worker_step :: "'w env \<Rightarrow> nat \<Rightarrow> 'w state \<Rightarrow> 'w state" where
  "worker_step env tid s =
     (if tid < length (workers s) then
        case record_worker env (workers s ! tid) s of
          (w', s') \<Rightarrow> s'\<lparr>workers := (workers s')[tid := w']\<rparr>
      else s)"

fun step :: "'w env \<Rightarrow> action \<Rightarrow> 'w state \<Rightarrow> 'w state" where
  "step env StartRecording s = start_recording env s"
| "step env StopRecording s = stop_recording s"
| "step env TakeScreenshot s = take_screenshot env s"
| "step env (WorkerStep tid) s = worker_step env tid s"

fun exec :: "'w env \<Rightarrow> action list \<Rightarrow> 'w state \<Rightarrow> 'w state" where
  "exec env [] s = s"
| "exec env (a # as) s = exec env as (step env a s)"

definition active_workers :: "'w state \<Rightarrow> nat" where
  "active_workers s = length (filter (\<lambda>w. w \<noteq> Finished) (workers s))"


section \<open>Observations\<close>

text \<open>The events a piece of the program added to the log.\<close>

definition new_events :: "'w state \<Rightarrow> 'w state \<Rightarrow> event list" where
  "new_events s s' = drop (length (trace s)) (trace s')"

text \<open>The command lines handed to the operating system, in order.\<close>

fun argv_of :: "event \<Rightarrow> ustr list option" where
  "argv_of (Run argv oc) = Some argv"
| "argv_of (Popen argv oc) = Some argv"
| "argv_of e = None"

definition commands :: "event list \<Rightarrow> ustr list list" where
  "commands evs = List.map_filter argv_of evs"

text \<open>A command that ran to completion and wrote nothing to its error stream.\<close>

fun no_stream_error :: "event \<Rightarrow> bool" where
  "no_stream_error (Run argv (Completed out err)) = (strip err = [])"
| "no_stream_error (Run argv (Raised e)) = False"
| "no_stream_error e = True"

text \<open>
  A device listing as the tool prints it: a header line, then one line per entry,
  each after a newline.
\<close>

definition listing :: "ustr \<Rightarrow> ustr list \<Rightarrow> ustr" where
  "listing header rest = header @ concat (map (\<lambda>l. 10 # l) rest)"

text \<open>\<open>t\<close> is \<open>raw\<close> without its surrounding whitespace.\<close>

definition trimmed_of :: "ustr \<Rightarrow> ustr \<Rightarrow> bool" where
  "trimmed_of raw t \<longleftrightarrow>
     (\<exists>pre suf. raw = pre @ t @ suf \<and> list_all is_space pre \<and> list_all is_space suf) \<and>
     (t \<noteq> [] \<longrightarrow> \<not> is_space (hd t) \<and> \<not> is_space (last t))"

text \<open>The shape \<open>YYYYMMDD_HHMMSS\<close>: eight digits, an underscore, six digits.\<close>

definition is_digit :: "nat \<Rightarrow> bool" where
  "is_digit c \<longleftrightarrow> 48 \<le> c \<and> c \<le> 57"

definition stamp_shape :: "ustr \<Rightarrow> bool" where
  "stamp_shape t \<longleftrightarrow>
     length t = 15 \<and> list_all is_digit (take 8 t) \<and> t ! 8 = 95 \<and> list_all is_digit (drop 9 t)"

text \<open>A local time as \<open>time.localtime\<close> gives it, in a year of four digits.\<close>

definition valid_time :: "struct_time \<Rightarrow> bool" where
  "valid_time t \<longleftrightarrow>
     1000 \<le> tm_year t \<and> tm_year t \<le> 9999 \<and> 1 \<le> tm_mon t \<and> tm_mon t \<le> 12 \<and>
     1 \<le> tm_mday t \<and> tm_mday t \<le> 31 \<and> tm_hour t \<le> 23 \<and> tm_min t \<le> 59 \<and> tm_sec t \<le> 61"

text \<open>
  What is assumed of the external tool and the operating system where a property speaks
  of local files: a \<open>pull src dst\<close> that completes without error output leaves the file
  \<open>dst\<close> in the working directory, and nothing else the program calls changes the
  working directory.
\<close>

definition is_pull :: "ustr list \<Rightarrow> bool" where
  "is_pull argv \<longleftrightarrow> length argv = 4 \<and> argv ! 0 = ADB_BIN \<and> argv ! 1 = U ''pull''"

definition tool_contract :: "'w env \<Rightarrow> bool" where
  "tool_contract env \<longleftrightarrow>
     (\<forall>argv w. local_files env (snd (subprocess_run env argv w)) =
        (if is_pull argv \<and> no_stream_error (Run argv (fst (subprocess_run env argv w)))
         then insert (argv ! 3) (local_files env w) else local_files env w)) \<and>
     (\<forall>argv w. local_files env (snd (subprocess_Popen env argv w)) = local_files env w) \<and>
     (\<forall>p w. local_files env (proc_terminate env p w) = local_files env w) \<and>
     (\<forall>n w. local_files env (time_sleep env n w) = local_files env w)"

section \<open>A concrete tool\<close>

text \<open>
  A tool with one device attached, whose commands all succeed; the world is the list of
  local files, and the clock stands at 2024-03-09 14:05:00.
\<close>

definition demo_run :: "ustr list \<Rightarrow> ustr list \<Rightarrow> run_outcome \<times> ustr list" where
  "demo_run argv w =
     (if argv = [ADB_BIN, U ''devices''] then
        (Completed (U ''List of devices attached\<newline>emulator-5554'' @ [9] @ U ''device\<newline>\<newline>'') [], w)
      else if is_pull argv then (Completed [] [], argv ! 3 # w)
      else (Completed [] [], w))"

definition demo_env :: "(ustr list) env" where
  "demo_env =
     \<lparr>subprocess_run = demo_run,
      subprocess_Popen = (\<lambda>argv w. (Started 7, w)),
      proc_terminate = (\<lambda>p w. w),
      time_sleep = (\<lambda>n w. w),
      time_localtime = (\<lambda>w. \<lparr>tm_year = 2024, tm_mon = 3, tm_mday = 9,
                               tm_hour = 14, tm_min = 5, tm_sec = 0\<rparr>),
      local_files = set\<rparr>"

definition idle :: "(ustr list) state" where
  "idle = \<lparr>recording = False, record_thread = None, ui_up = True, label_updates = [],
           workers = [], trace = [], world = []\<rparr>"


text \<open>
  The same tool with a fault: every command line that mentions \<open>verb\<close> completes
  with a message on its error stream and does nothing else.
\<close>

definition demo_run_failing :: "ustr \<Rightarrow> ustr list \<Rightarrow> ustr list \<Rightarrow> run_outcome \<times> ustr list" where
  "demo_run_failing verb argv w =
     (if verb \<in> set argv then (Completed [] (U ''error: device offline''), w)
      else demo_run argv w)"

definition failing_env :: "ustr \<Rightarrow> (ustr list) env" where
  "failing_env verb = demo_env\<lparr>subprocess_run := demo_run_failing verb\<rparr>"

text \<open>A system on which the binary cannot be executed: every invocation raises.\<close>

definition missing_env :: "(ustr list) env" where
  "missing_env =
     demo_env\<lparr>subprocess_run := (\<lambda>argv w. (Raised (U ''[Errno 2] No such file or directory''), w)),
              subprocess_Popen := (\<lambda>argv w. (PopenRaised (U ''[Errno 2] No such file or directory''), w))\<rparr>"

text \<open>A system on which the device answers but the capture process cannot be spawned.\<close>

definition popen_failing_env :: "(ustr list) env" where
  "popen_failing_env =
     demo_env\<lparr>subprocess_Popen := (\<lambda>argv w. (PopenRaised (U ''[Errno 12] Cannot allocate memory''), w))\<rparr>"

section \<open>A recording session\<close>

text \<open>
  One session as the user drives it: the start request, the worker entering its body,
  \<open>k\<close> turns of the polling loop while the recording runs, the stop request, and then
  the worker running to its end (leaving the loop, terminating the capture process,
  pulling, deleting).
\<close>

definition session :: "nat \<Rightarrow> nat \<Rightarrow> action list" where
  "session tid k =
     [StartRecording, WorkerStep tid] @ replicate k (WorkerStep tid) @
     [StopRecording, WorkerStep tid, WorkerStep tid, WorkerStep tid, WorkerStep tid]"

section \<open>Facts about the text functions\<close>

lemma splitlines_from_plain:
  "\<not> is_linebreak c \<Longrightarrow> splitlines_from cur (c # cs) = splitlines_from (cur @ [c]) cs"
  by (cases cs) (auto simp: is_linebreak_def)

lemma splitlines_from_newline:
  "splitlines_from cur (10 # cs) = cur # splitlines_from [] cs"
  by (cases cs) (auto simp: is_linebreak_def)

lemma splitlines_from_line:
  "\<forall>c\<in>set l. \<not> is_linebreak c \<Longrightarrow> splitlines_from cur (l @ r) = splitlines_from (cur @ l) r"
  by (induction l arbitrary: cur) (simp_all add: splitlines_from_plain)

lemma splitlines_from_lines:
  "\<forall>l\<in>set rest. \<forall>c\<in>set l. \<not> is_linebreak c \<Longrightarrow>
   splitlines_from cur (concat (map (\<lambda>l. 10 # l) rest)) =
     (if rest = [] then (if cur = [] then [] else [cur])
      else cur # (if last rest = [] then butlast rest else rest))"
proof (induction rest arbitrary: cur)
  case Nil
  show ?case by simp
next
  case (Cons r rs)
  have r: "\<forall>c\<in>set r. \<not> is_linebreak c" and rs: "\<forall>l\<in>set rs. \<forall>c\<in>set l. \<not> is_linebreak c"
    using Cons.prems by simp_all
  have "splitlines_from cur (concat (map (\<lambda>l. 10 # l) (r # rs))) =
        cur # splitlines_from r (concat (map (\<lambda>l. 10 # l) rs))"
    using splitlines_from_line [OF r, of "[]"] by (simp add: splitlines_from_newline)
  then show ?case using Cons.IH [OF rs, of r] by simp
qed

lemma splitlines_listing:
  assumes "\<forall>c\<in>set header. \<not> is_linebreak c" "\<forall>l\<in>set rest. \<forall>c\<in>set l. \<not> is_linebreak c"
  shows "drop 1 (splitlines (listing header rest)) =
           (if rest \<noteq> [] \<and> last rest = [] then butlast rest else rest)"
  using splitlines_from_line [OF assms(1), of "[]"] splitlines_from_lines [OF assms(2), of header]
  by (simp add: splitlines_def listing_def)

lemma str_in_iff: "str_in sub s \<longleftrightarrow> (\<exists>p q. s = p @ sub @ q)"
proof (induction s)
  case Nil
  show ?case by auto
next
  case (Cons c cs)
  show ?case
  proof
    assume "str_in sub (c # cs)"
    then consider "prefix sub (c # cs)" | "str_in sub cs" by auto
    then show "\<exists>p q. c # cs = p @ sub @ q"
    proof cases
      case 1
      then obtain q where "c # cs = sub @ q" by (auto simp: prefix_def)
      then have "c # cs = [] @ sub @ q" by simp
      then show ?thesis by blast
    next
      case 2
      then obtain p q where "cs = p @ sub @ q" using Cons.IH by blast
      then have "c # cs = (c # p) @ sub @ q" by simp
      then show ?thesis by blast
    qed
  next
    assume "\<exists>p q. c # cs = p @ sub @ q"
    then obtain p q where e: "c # cs = p @ sub @ q" by blast
    show "str_in sub (c # cs)"
    proof (cases p)
      case Nil
      with e have "prefix sub (c # cs)" by (simp add: prefix_def)
      then show ?thesis by simp
    next
      case (Cons a p')
      with e have "cs = p' @ sub @ q" by simp
      then have "str_in sub cs" using Cons.IH by blast
      then show ?thesis by simp
    qed
  qed
qed

lemma strip_Nil: "strip [] = []"
  by (simp add: strip_def)

lemma qualifying_butlast:
  assumes "rest \<noteq> []" "last rest = []"
  shows "filter (\<lambda>ln. strip ln \<noteq> [] \<and> P ln) (butlast rest) =
         filter (\<lambda>ln. strip ln \<noteq> [] \<and> P ln) rest"
proof -
  have "rest = butlast rest @ [[]]" using assms by (metis append_butlast_last_id)
  then have "filter (\<lambda>ln. strip ln \<noteq> [] \<and> P ln) rest =
             filter (\<lambda>ln. strip ln \<noteq> [] \<and> P ln) (butlast rest @ [[]])" by simp
  then show ?thesis by (simp add: strip_Nil)
qed

lemma last_dropWhile_eq: "dropWhile P xs \<noteq> [] \<Longrightarrow> last (dropWhile P xs) = last xs"
  by (induction xs) (auto split: if_splits)

lemma strip_trimmed: "trimmed_of raw (strip raw)"
proof -
  let ?mid = "dropWhile is_space raw"
  let ?d = "dropWhile is_space (rev ?mid)"
  have raw: "raw = takeWhile is_space raw @ ?mid" by simp
  have mid: "?mid = rev ?d @ rev (takeWhile is_space (rev ?mid))"
    by (metis rev_append rev_rev_ident takeWhile_dropWhile_id)
  have decomp: "raw = takeWhile is_space raw @ strip raw @ rev (takeWhile is_space (rev ?mid))"
    using raw mid unfolding strip_def by metis
  have sp1: "list_all is_space (takeWhile is_space raw)"
    by (simp add: list_all_iff) (metis set_takeWhileD)
  have sp2: "list_all is_space (rev (takeWhile is_space (rev ?mid)))"
    by (simp add: list_all_iff) (metis set_takeWhileD)
  have ends: "\<not> is_space (hd (strip raw)) \<and> \<not> is_space (last (strip raw))" if ne: "strip raw \<noteq> []"
  proof -
    from ne have d: "?d \<noteq> []" by (simp add: strip_def)
    have m: "?mid \<noteq> []"
    proof
      assume "?mid = []"
      then have "?d = []" by (metis dropWhile.simps(1) rev.simps(1))
      with d show False by contradiction
    qed
    have "hd (strip raw) = last ?d" using d by (simp add: strip_def hd_rev)
    also have "\<dots> = last (rev ?mid)" using d by (rule last_dropWhile_eq)
    also have "\<dots> = hd ?mid" using m by (simp add: last_rev)
    finally have h: "\<not> is_space (hd (strip raw))" using m hd_dropWhile by metis
    have "last (strip raw) = hd ?d" using d by (simp add: strip_def last_rev)
    then have "\<not> is_space (last (strip raw))" using d hd_dropWhile by metis
    with h show ?thesis by simp
  qed
  show ?thesis unfolding trimmed_of_def using decomp sp1 sp2 ends by blast
qed

section \<open>Facts about the timestamp\<close>

lemma decimal_small: "n < 10 \<Longrightarrow> decimal n = [48 + n]"
  by (subst decimal.simps) simp

lemma decimal_big: "10 \<le> n \<Longrightarrow> decimal n = decimal (n div 10) @ [48 + n mod 10]"
  by (subst decimal.simps) simp

lemma decimal_digits: "list_all is_digit (decimal n)"
proof (induction n rule: decimal.induct)
  case (1 n)
  show ?case
  proof (cases "n < 10")
    case True
    then show ?thesis by (simp add: decimal_small is_digit_def)
  next
    case False
    then have "list_all is_digit (decimal (n div 10))" using 1 by simp
    moreover have "is_digit (48 + n mod 10)" unfolding is_digit_def by arith
    ultimately show ?thesis using False by (simp add: decimal_big)
  qed
qed

lemma decimal_length2: "10 \<le> n \<Longrightarrow> n < 100 \<Longrightarrow> length (decimal n) = 2"
proof -
  assume a: "10 \<le> n" "n < 100"
  have 1: "decimal n = decimal (n div 10) @ [48 + n mod 10]" using a(1) by (rule decimal_big)
  have "n div 10 < 10" using a(2) by simp
  then have 2: "decimal (n div 10) = [48 + n div 10]" by (rule decimal_small)
  show ?thesis unfolding 1 2 by simp
qed

lemma decimal_length4: "1000 \<le> n \<Longrightarrow> n \<le> 9999 \<Longrightarrow> length (decimal n) = 4"
proof -
  assume a: "1000 \<le> n" "n \<le> 9999"
  have "10 \<le> n" using a by simp
  then have 1: "decimal n = decimal (n div 10) @ [48 + n mod 10]" by (rule decimal_big)
  have "10 \<le> n div 10" using a by simp
  then have 2: "decimal (n div 10) = decimal (n div 10 div 10) @ [48 + n div 10 mod 10]"
    by (rule decimal_big)
  have "10 \<le> n div 10 div 10" "n div 10 div 10 < 100" using a by simp_all
  then have 3: "length (decimal (n div 10 div 10)) = 2" by (rule decimal_length2)
  show ?thesis unfolding 1 2 using 3 by simp
qed

lemma pad2_shape: "n < 100 \<Longrightarrow> length (pad2 n) = 2 \<and> list_all is_digit (pad2 n)"
proof (cases "n < 10")
  case True
  then show ?thesis by (simp add: pad2_def decimal_small is_digit_def)
next
  case False
  assume "n < 100"
  with False have "length (decimal n) = 2" by (intro decimal_length2) simp_all
  with False show ?thesis by (simp add: pad2_def decimal_digits)
qed

lemma strftime_shape: "valid_time t \<Longrightarrow> stamp_shape (strftime_Ymd_HMS t)"
proof -
  assume v: "valid_time t"
  have y: "length (decimal (tm_year t)) = 4" "list_all is_digit (decimal (tm_year t))"
    using v by (simp_all add: valid_time_def decimal_length4 decimal_digits)
  have f: "length (pad2 (tm_mon t)) = 2" "list_all is_digit (pad2 (tm_mon t))"
          "length (pad2 (tm_mday t)) = 2" "list_all is_digit (pad2 (tm_mday t))"
          "length (pad2 (tm_hour t)) = 2" "list_all is_digit (pad2 (tm_hour t))"
          "length (pad2 (tm_min t)) = 2" "list_all is_digit (pad2 (tm_min t))"
          "length (pad2 (tm_sec t)) = 2" "list_all is_digit (pad2 (tm_sec t))"
    using v by (simp_all add: valid_time_def pad2_shape)
  show ?thesis
    unfolding stamp_shape_def strftime_Ymd_HMS_def using y f
    by (simp add: nth_append)
qed

section \<open>Facts about the executor\<close>

lemma adb_cmd_fst:
  "fst (adb_cmd env a s) = returned (fst (subprocess_run env (ADB_BIN # a) (world s)))"
  by (simp add: adb_cmd_def split_beta)

lemma adb_cmd_snd:
  "snd (adb_cmd env a s) =
     s\<lparr>trace := trace s @ [Run (ADB_BIN # a) (fst (subprocess_run env (ADB_BIN # a) (world s)))],
        world := snd (subprocess_run env (ADB_BIN # a) (world s))\<rparr>"
  by (simp add: adb_cmd_def split_beta emit_def)

lemma no_stream_error_returned: "no_stream_error (Run a oc) \<Longrightarrow> snd (returned oc) = []"
  by (cases oc) simp_all

section \<open>The command executor\<close>

text \<open>
  Claim C9. For every argument list, \<open>adb_cmd\<close> makes one invocation of the tool and
  returns a pair: when the tool completes, its standard output and standard error with
  the surrounding whitespace trimmed; when the invocation raises, the empty output and
  the text of the exception. No case is left in which it raises to its caller.
\<close>

theorem adb_cmd_returns:
  "(case subprocess_run env (ADB_BIN # args_list) (world s) of
      (Completed out err, w') \<Rightarrow>
        trimmed_of out (fst (fst (adb_cmd env args_list s))) \<and>
        trimmed_of err (snd (fst (adb_cmd env args_list s)))
    | (Raised e, w') \<Rightarrow> fst (adb_cmd env args_list s) = ([], e)) \<and>
   new_events s (snd (adb_cmd env args_list s)) =
     [Run (ADB_BIN # args_list) (fst (subprocess_run env (ADB_BIN # args_list) (world s)))]"
  by (auto simp: adb_cmd_def new_events_def emit_def strip_trimmed
      split: prod.splits run_outcome.splits)

theorem adb_cmd_returns_witness:
  "trimmed_of (U ''List of devices attached\<newline>emulator-5554'' @ [9] @ U ''device\<newline>\<newline>'')
     (fst (fst (adb_cmd demo_env [U ''devices''] idle))) \<and>
   fst (adb_cmd (demo_env\<lparr>subprocess_run := \<lambda>argv w. (Raised (U ''No such file''), w)\<rparr>)
          [U ''devices''] idle) = ([], U ''No such file'')"
  using adb_cmd_returns [of demo_env "[U ''devices'']" idle]
    adb_cmd_returns [of "demo_env\<lparr>subprocess_run := \<lambda>argv w. (Raised (U ''No such file''), w)\<rparr>"
                        "[U ''devices'']" idle]
  by (simp add: demo_env_def demo_run_def)

section \<open>The device check\<close>

text \<open>
  Claim C2. Whenever the executor hands the check a device listing with no error text,
  made of a header line followed by further lines, the check reports a device exactly
  when some line after the header is not blank and contains the token \<open>device\<close>.
  The header is never counted, whatever it contains.
\<close>

theorem check_device_connected_listing:
  assumes "adb_cmd env [U ''devices''] s = ((listing header rest, []), s1)"
    and "\<forall>c\<in>set header. \<not> is_linebreak c"
    and "\<forall>l\<in>set rest. \<forall>c\<in>set l. \<not> is_linebreak c"
  shows "fst (check_device_connected env s) \<longleftrightarrow>
           (\<exists>l\<in>set rest. strip l \<noteq> [] \<and> str_in (U ''device'') l)"
proof -
  let ?Q = "\<lambda>ln. strip ln \<noteq> [] \<and> str_in (U ''device'') ln"
  have d: "filter ?Q (drop 1 (splitlines (listing header rest))) = filter ?Q rest"
    using splitlines_listing [OF assms(2,3)] qualifying_butlast [of rest "str_in (U ''device'')"]
    by (cases "rest \<noteq> [] \<and> last rest = []") simp_all
  have "fst (check_device_connected env s) \<longleftrightarrow> filter ?Q rest \<noteq> []"
    unfolding check_device_connected_def assms(1) using d by (simp add: Let_def)
  then show ?thesis by (simp add: filter_empty_conv)
qed

theorem check_device_connected_listing_witness:
  "fst (check_device_connected demo_env idle) \<and>
   \<not> fst (check_device_connected
            (demo_env\<lparr>subprocess_run := \<lambda>argv w. (Completed (U ''List of devices attached'') [], w)\<rparr>)
            idle)"
proof -
  let ?quiet = "demo_env\<lparr>subprocess_run := \<lambda>argv w. (Completed (U ''List of devices attached'') [], w)\<rparr>"
  have h: "adb_cmd demo_env [U ''devices''] idle =
             ((listing (U ''List of devices attached'') [U ''emulator-5554'' @ 9 # U ''device''], []),
              snd (adb_cmd demo_env [U ''devices''] idle))"
    by (simp add: prod_eq_iff adb_cmd_fst demo_env_def demo_run_def listing_def strip_def is_space_def)
  have q: "adb_cmd ?quiet [U ''devices''] idle =
             ((listing (U ''List of devices attached'') [], []), snd (adb_cmd ?quiet [U ''devices''] idle))"
    by (simp add: prod_eq_iff adb_cmd_fst demo_env_def listing_def strip_def is_space_def)
  show ?thesis
    using check_device_connected_listing [OF h] check_device_connected_listing [OF q]
    by (simp add: is_linebreak_def strip_def is_space_def)
qed

section \<open>Facts about the flows\<close>

lemma check_frame:
  "recording (snd (check_device_connected env s)) = recording s"
  "workers (snd (check_device_connected env s)) = workers s"
  "record_thread (snd (check_device_connected env s)) = record_thread s"
  "ui_up (snd (check_device_connected env s)) = ui_up s"
  "label_updates (snd (check_device_connected env s)) = label_updates s"
  "world (snd (check_device_connected env s)) = snd (subprocess_run env [ADB_BIN, U ''devices''] (world s))"
  by (simp_all add: check_device_connected_def adb_cmd_def split_beta Let_def emit_def)

lemma check_trace_present:
  "fst (check_device_connected env s) \<Longrightarrow>
   trace (snd (check_device_connected env s)) =
     trace s @ [Run [ADB_BIN, U ''devices''] (fst (subprocess_run env [ADB_BIN, U ''devices''] (world s)))]"
  by (simp add: check_device_connected_def adb_cmd_def split_beta Let_def emit_def split: if_splits)

lemma check_trace_absent:
  "\<not> fst (check_device_connected env s) \<Longrightarrow>
   \<exists>d. trace (snd (check_device_connected env s)) =
     trace s @ [Run [ADB_BIN, U ''devices''] (fst (subprocess_run env [ADB_BIN, U ''devices''] (world s))), d]
     \<and> argv_of d = None"
  by (simp add: check_device_connected_def adb_cmd_def split_beta Let_def emit_def split: if_splits)

lemma check_failed_absent:
  "snd (returned (fst (subprocess_run env [ADB_BIN, U ''devices''] (world s)))) \<noteq> [] \<Longrightarrow>
   \<not> fst (check_device_connected env s)"
  by (simp add: check_device_connected_def adb_cmd_def split_beta)

lemma check_raised_absent:
  "fst (subprocess_run env [ADB_BIN, U ''devices''] (world s)) = Raised e \<Longrightarrow>
   \<not> fst (check_device_connected env s)"
  by (simp add: check_device_connected_def adb_cmd_def split_beta Let_def splitlines_def)


lemma contract_run:
  "tool_contract env \<Longrightarrow>
   local_files env (snd (subprocess_run env argv w)) =
     (if is_pull argv \<and> no_stream_error (Run argv (fst (subprocess_run env argv w)))
      then insert (argv ! 3) (local_files env w) else local_files env w)"
  by (simp add: tool_contract_def)


lemma set_status_frame:
  "trace (set_status t s) = trace s @ [Print t]"
  "world (set_status t s) = world s"
  "recording (set_status t s) = recording s"
  "workers (set_status t s) = workers s"
  "record_thread (set_status t s) = record_thread s"
  by (simp_all add: set_status_def emit_def)

lemma emit_frame:
  "trace (emit e s) = trace s @ [e]"
  "world (emit e s) = world s"
  "recording (emit e s) = recording s"
  "workers (emit e s) = workers s"
  "record_thread (emit e s) = record_thread s"
  by (simp_all add: emit_def)

lemma adb_cmd_frame:
  "trace (snd (adb_cmd env a s)) =
     trace s @ [Run (ADB_BIN # a) (fst (subprocess_run env (ADB_BIN # a) (world s)))]"
  "world (snd (adb_cmd env a s)) = snd (subprocess_run env (ADB_BIN # a) (world s))"
  "recording (snd (adb_cmd env a s)) = recording s"
  "workers (snd (adb_cmd env a s)) = workers s"
  "record_thread (snd (adb_cmd env a s)) = record_thread s"
  by (simp_all add: adb_cmd_snd)

lemma take_screenshot_cases:
  assumes present: "fst (check_device_connected env s)"
  defines "name \<equiv> U ''screenshot_'' @
             strftime_Ymd_HMS (time_localtime env (world (snd (check_device_connected env s)))) @ U ''.png''"
  obtains
    (capture_failed) oc0 oc1 where
      "new_events s (take_screenshot env s) =
         [Run [ADB_BIN, U ''devices''] oc0, Print (U ''Capturing screenshot on device...''),
          Run [ADB_BIN, U ''shell'', U ''screencap'', U ''-p'', device_tmp_screenshot] oc1,
          ShowError (U ''ADBB Error'') (U ''screencap failed:\<newline>'' @ snd (returned oc1))]"
      "snd (returned oc1) \<noteq> []"
  | (pull_failed) oc0 oc1 oc2 where
      "new_events s (take_screenshot env s) =
         [Run [ADB_BIN, U ''devices''] oc0, Print (U ''Capturing screenshot on device...''),
          Run [ADB_BIN, U ''shell'', U ''screencap'', U ''-p'', device_tmp_screenshot] oc1,
          Print (U ''Pulling screenshot from device...''),
          Run [ADB_BIN, U ''pull'', device_tmp_screenshot, name] oc2,
          ShowError (U ''ADBB Error'') (U ''pull failed:\<newline>'' @ snd (returned oc2))]"
      "snd (returned oc1) = []" "snd (returned oc2) \<noteq> []"
  | (saved) oc0 oc1 oc2 oc3 where
      "new_events s (take_screenshot env s) =
         [Run [ADB_BIN, U ''devices''] oc0, Print (U ''Capturing screenshot on device...''),
          Run [ADB_BIN, U ''shell'', U ''screencap'', U ''-p'', device_tmp_screenshot] oc1,
          Print (U ''Pulling screenshot from device...''),
          Run [ADB_BIN, U ''pull'', device_tmp_screenshot, name] oc2,
          Run [ADB_BIN, U ''shell'', U ''rm'', device_tmp_screenshot] oc3,
          Print (U ''Saved screenshot: '' @ name)]"
      "snd (returned oc1) = []" "snd (returned oc2) = []"
      "tool_contract env \<Longrightarrow>
         local_files env (world (take_screenshot env s)) =
           (if no_stream_error (Run [ADB_BIN, U ''pull'', device_tmp_screenshot, name] oc2)
            then insert name (local_files env (world s)) else local_files env (world s))"
proof -
  define s1 where "s1 = snd (check_device_connected env s)"
  define s2 where "s2 = set_status (U ''Capturing screenshot on device...'') s1"
  define cap where "cap = [U ''shell'', U ''screencap'', U ''-p'', device_tmp_screenshot]"
  define r3 where "r3 = adb_cmd env cap s2"
  define s4 where "s4 = set_status (U ''Pulling screenshot from device...'') (snd r3)"
  define pl where "pl = [U ''pull'', device_tmp_screenshot, name]"
  define r5 where "r5 = adb_cmd env pl s4"
  define rmv where "rmv = [U ''shell'', U ''rm'', device_tmp_screenshot]"
  define r6 where "r6 = adb_cmd env rmv (snd r5)"
  define oc0 where "oc0 = fst (subprocess_run env [ADB_BIN, U ''devices''] (world s))"
  define oc1 where "oc1 = fst (subprocess_run env (ADB_BIN # cap) (world s2))"
  define oc2 where "oc2 = fst (subprocess_run env (ADB_BIN # pl) (world s4))"
  define oc3 where "oc3 = fst (subprocess_run env (ADB_BIN # rmv) (world (snd r5)))"
  have unf: "take_screenshot env s =
      (if snd (fst r3) \<noteq> [] then
         emit (ShowError (U ''ADBB Error'') (U ''screencap failed:\<newline>'' @ snd (fst r3))) (snd r3)
       else if snd (fst r5) \<noteq> [] then
         emit (ShowError (U ''ADBB Error'') (U ''pull failed:\<newline>'' @ snd (fst r5))) (snd r5)
       else set_status (U ''Saved screenshot: '' @ name) (snd r6))"
    using present
    unfolding take_screenshot_def r6_def r5_def s4_def r3_def s2_def name_def s1_def cap_def pl_def rmv_def
    by (simp add: split_beta Let_def)
  have t1: "trace s1 = trace s @ [Run [ADB_BIN, U ''devices''] oc0]"
    unfolding s1_def oc0_def using present by (rule check_trace_present)
  have t2: "trace s2 = trace s1 @ [Print (U ''Capturing screenshot on device...'')]"
    unfolding s2_def by (rule set_status_frame)
  have t3: "trace (snd r3) = trace s2 @ [Run (ADB_BIN # cap) oc1]"
    unfolding r3_def oc1_def by (rule adb_cmd_frame)
  have t4: "trace s4 = trace (snd r3) @ [Print (U ''Pulling screenshot from device...'')]"
    unfolding s4_def by (rule set_status_frame)
  have t5: "trace (snd r5) = trace s4 @ [Run (ADB_BIN # pl) oc2]"
    unfolding r5_def oc2_def by (rule adb_cmd_frame)
  have t6: "trace (snd r6) = trace (snd r5) @ [Run (ADB_BIN # rmv) oc3]"
    unfolding r6_def oc3_def by (rule adb_cmd_frame)
  have f3: "fst r3 = returned oc1" unfolding r3_def oc1_def by (rule adb_cmd_fst)
  have f5: "fst r5 = returned oc2" unfolding r5_def oc2_def by (rule adb_cmd_fst)
  note traces = t1 t2 t3 t4 t5 t6
  show thesis
  proof (cases "snd (returned oc1) \<noteq> []")
    case True
    have "new_events s (take_screenshot env s) =
         [Run [ADB_BIN, U ''devices''] oc0, Print (U ''Capturing screenshot on device...''),
          Run (ADB_BIN # cap) oc1,
          ShowError (U ''ADBB Error'') (U ''screencap failed:\<newline>'' @ snd (returned oc1))]"
      using True by (simp add: unf f3 new_events_def emit_frame traces)
    then show thesis using True capture_failed unfolding cap_def by blast
  next
    case c1: False
    show thesis
    proof (cases "snd (returned oc2) \<noteq> []")
      case True
      have "new_events s (take_screenshot env s) =
         [Run [ADB_BIN, U ''devices''] oc0, Print (U ''Capturing screenshot on device...''),
          Run (ADB_BIN # cap) oc1, Print (U ''Pulling screenshot from device...''),
          Run (ADB_BIN # pl) oc2,
          ShowError (U ''ADBB Error'') (U ''pull failed:\<newline>'' @ snd (returned oc2))]"
        using True c1 by (simp add: unf f3 f5 new_events_def emit_frame traces)
      then show thesis using True c1 pull_failed unfolding cap_def pl_def by blast
    next
      case c2: False
      have ne: "new_events s (take_screenshot env s) =
         [Run [ADB_BIN, U ''devices''] oc0, Print (U ''Capturing screenshot on device...''),
          Run (ADB_BIN # cap) oc1, Print (U ''Pulling screenshot from device...''),
          Run (ADB_BIN # pl) oc2, Run (ADB_BIN # rmv) oc3, Print (U ''Saved screenshot: '' @ name)]"
        using c1 c2 by (simp add: unf f3 f5 new_events_def set_status_frame traces)
      have w: "world (take_screenshot env s) = world (snd r6)"
        using c1 c2 by (simp add: unf f3 f5 set_status_frame)
      have files: "local_files env (world (take_screenshot env s)) =
           (if no_stream_error (Run (ADB_BIN # pl) oc2)
            then insert name (local_files env (world s)) else local_files env (world s))"
        if tool: "tool_contract env"
      proof -
        have l1: "local_files env (world s1) = local_files env (world s)"
          unfolding s1_def by (simp add: check_frame contract_run [OF tool] is_pull_def)
        have l2: "local_files env (world s2) = local_files env (world s1)"
          unfolding s2_def by (simp add: set_status_frame)
        have l3: "local_files env (world (snd r3)) = local_files env (world s2)"
          unfolding r3_def by (simp add: adb_cmd_frame contract_run [OF tool] is_pull_def cap_def)
        have l4: "local_files env (world s4) = local_files env (world (snd r3))"
          unfolding s4_def by (simp add: set_status_frame)
        have l5: "local_files env (world (snd r5)) =
                    (if no_stream_error (Run (ADB_BIN # pl) oc2)
                     then insert name (local_files env (world s4)) else local_files env (world s4))"
          unfolding r5_def oc2_def by (simp add: adb_cmd_frame contract_run [OF tool] is_pull_def pl_def)
        have l6: "local_files env (world (snd r6)) = local_files env (world (snd r5))"
          unfolding r6_def by (simp add: adb_cmd_frame contract_run [OF tool] is_pull_def rmv_def ADB_BIN_def)
        show ?thesis unfolding w l6 l5 l4 l3 l2 l1 by simp
      qed
      show thesis using saved [of oc0 oc1 oc2 oc3] ne c1 c2 files unfolding cap_def pl_def rmv_def by simp
    qed
  qed
qed



section \<open>Facts about the concrete tool\<close>

lemma demo_check:
  "check_device_connected demo_env s =
     (True, s\<lparr>trace := trace s @ [Run [ADB_BIN, U ''devices''] (fst (demo_run [ADB_BIN, U ''devices''] (world s)))],
             world := world s\<rparr>)"
  by (simp add: check_device_connected_def adb_cmd_def demo_env_def demo_run_def strip_def
      is_space_def splitlines_def is_linebreak_def emit_def Let_def)

lemma demo_stamp: "strftime_Ymd_HMS (time_localtime demo_env w) = U ''20240309_140500''"
  by (simp add: demo_env_def strftime_Ymd_HMS_def pad2_def decimal_small decimal_big)

lemma demo_contract: "tool_contract demo_env"
  by (auto simp: tool_contract_def demo_env_def demo_run_def is_pull_def ADB_BIN_def strip_def)

lemma demo_fields:
  "subprocess_run demo_env = demo_run"
  "subprocess_Popen demo_env argv w = (Started 7, w)"
  "proc_terminate demo_env p w = w"
  "time_sleep demo_env n w = w"
  "local_files demo_env = set"
  by (simp_all add: demo_env_def)

lemma demo_clock: "\<forall>w. valid_time (time_localtime demo_env w)"
  by (simp add: demo_env_def valid_time_def)



lemma demo_screenshot:
  "new_events idle (take_screenshot demo_env idle) =
     [Run [ADB_BIN, U ''devices''] (fst (demo_run [ADB_BIN, U ''devices''] [])),
      Print (U ''Capturing screenshot on device...''),
      Run [ADB_BIN, U ''shell'', U ''screencap'', U ''-p'', device_tmp_screenshot] (Completed [] []),
      Print (U ''Pulling screenshot from device...''),
      Run [ADB_BIN, U ''pull'', device_tmp_screenshot, U ''screenshot_20240309_140500.png''] (Completed [] []),
      Run [ADB_BIN, U ''shell'', U ''rm'', device_tmp_screenshot] (Completed [] []),
      Print (U ''Saved screenshot: screenshot_20240309_140500.png'')]"
  unfolding take_screenshot_def demo_check
  by (simp add: demo_stamp adb_cmd_def Let_def set_status_def emit_def new_events_def idle_def
      demo_fields demo_run_def is_pull_def ADB_BIN_def device_tmp_screenshot_def strip_def)

lemma failing_fields:
  "subprocess_run (failing_env verb) = demo_run_failing verb"
  "time_localtime (failing_env verb) = time_localtime demo_env"
  by (simp_all add: failing_env_def)

lemma failing_check:
  "check_device_connected (failing_env (U ''pull'')) s =
     (True, s\<lparr>trace := trace s @ [Run [ADB_BIN, U ''devices''] (fst (demo_run [ADB_BIN, U ''devices''] (world s)))],
             world := world s\<rparr>)"
  by (simp add: check_device_connected_def adb_cmd_def failing_fields demo_run_failing_def
      demo_run_def strip_def is_space_def splitlines_def is_linebreak_def emit_def Let_def ADB_BIN_def)

lemma failing_screenshot:
  "new_events idle (take_screenshot (failing_env (U ''pull'')) idle) =
     [Run [ADB_BIN, U ''devices''] (fst (demo_run [ADB_BIN, U ''devices''] [])),
      Print (U ''Capturing screenshot on device...''),
      Run [ADB_BIN, U ''shell'', U ''screencap'', U ''-p'', device_tmp_screenshot] (Completed [] []),
      Print (U ''Pulling screenshot from device...''),
      Run [ADB_BIN, U ''pull'', device_tmp_screenshot, U ''screenshot_20240309_140500.png'']
        (Completed [] (U ''error: device offline'')),
      ShowError (U ''ADBB Error'') (U ''pull failed:\<newline>error: device offline'')]"
  unfolding take_screenshot_def failing_check
  by (simp add: failing_fields demo_stamp adb_cmd_def Let_def set_status_def emit_def new_events_def
      idle_def demo_run_failing_def demo_run_def is_pull_def ADB_BIN_def device_tmp_screenshot_def
      strip_def is_space_def)
section \<open>Facts about the worker\<close>

lemma worker_step_unfold:
  "tid < length (workers s) \<Longrightarrow>
   worker_step env tid s =
     (snd (record_worker env (workers s ! tid) s))
       \<lparr>workers := (workers (snd (record_worker env (workers s ! tid) s)))
                     [tid := fst (record_worker env (workers s ! tid) s)]\<rparr>"
  by (simp add: worker_step_def split_beta)

lemma worker_begin:
  assumes "tid < length (workers s)" "workers s ! tid = Created"
  shows "trace (worker_step env tid s) =
           trace s @ [Print (U ''Starting '' @ ADB_BIN @ U '' screenrecord...''),
                      Popen [ADB_BIN, U ''shell'', U ''screenrecord'', device_tmp_record]
                        (fst (subprocess_Popen env [ADB_BIN, U ''shell'', U ''screenrecord'', device_tmp_record] (world s)))] @
           (case fst (subprocess_Popen env [ADB_BIN, U ''shell'', U ''screenrecord'', device_tmp_record] (world s)) of
              PopenRaised e \<Rightarrow> [Print (U ''Failed to start screenrecord: '' @ e)]
            | Started p \<Rightarrow> [])"
    and "workers (worker_step env tid s) =
           (workers s)[tid :=
              (case fst (subprocess_Popen env [ADB_BIN, U ''shell'', U ''screenrecord'', device_tmp_record] (world s)) of
                 PopenRaised e \<Rightarrow> Finished
               | Started p \<Rightarrow> Polling p (U ''record_'' @ strftime_Ymd_HMS (time_localtime env (world s)) @ U ''.mp4''))]"
    and "recording (worker_step env tid s) =
           (case fst (subprocess_Popen env [ADB_BIN, U ''shell'', U ''screenrecord'', device_tmp_record] (world s)) of
              PopenRaised e \<Rightarrow> False
            | Started p \<Rightarrow> recording s)"
    and "world (worker_step env tid s) =
           snd (subprocess_Popen env [ADB_BIN, U ''shell'', U ''screenrecord'', device_tmp_record] (world s))"
    and "record_thread (worker_step env tid s) = record_thread s"
  using assms
  by (simp_all add: worker_step_unfold Let_def set_status_frame emit_frame set_status_def emit_def
      split: prod.splits popen_outcome.splits)

lemma worker_poll_on:
  assumes "tid < length (workers s)" "workers s ! tid = Polling p out" "recording s"
  shows "trace (worker_step env tid s) = trace s @ [Sleep 200]"
    and "workers (worker_step env tid s) = workers s"
    and "recording (worker_step env tid s)"
    and "world (worker_step env tid s) = time_sleep env 200 (world s)"
    and "record_thread (worker_step env tid s) = record_thread s"
  using assms by (simp_all add: worker_step_unfold emit_def list_update_same_conv)

lemma worker_poll_off:
  assumes "tid < length (workers s)" "workers s ! tid = Polling p out" "\<not> recording s"
  shows "worker_step env tid s = s\<lparr>workers := (workers s)[tid := Stopping p out]\<rparr>"
  using assms by (simp add: worker_step_unfold)

lemma worker_stop:
  assumes "tid < length (workers s)" "workers s ! tid = Stopping p out"
  shows "trace (worker_step env tid s) =
           trace s @ [Print (U ''Stopping recording, please wait...''), Terminate p, Sleep 1000]"
    and "workers (worker_step env tid s) = (workers s)[tid := Pulling out]"
    and "recording (worker_step env tid s) = recording s"
    and "world (worker_step env tid s) = time_sleep env 1000 (proc_terminate env p (world s))"
    and "record_thread (worker_step env tid s) = record_thread s"
  using assms by (simp_all add: worker_step_unfold Let_def set_status_def emit_def)

lemma worker_pull:
  assumes "tid < length (workers s)" "workers s ! tid = Pulling out"
  shows "trace (worker_step env tid s) =
           trace s @ [Print (U ''Pulling video from device...''),
                      Run [ADB_BIN, U ''pull'', device_tmp_record, out]
                        (fst (subprocess_run env [ADB_BIN, U ''pull'', device_tmp_record, out] (world s))),
                      Print (if snd (returned (fst (subprocess_run env [ADB_BIN, U ''pull'', device_tmp_record, out] (world s)))) \<noteq> []
                             then U ''Pull error: '' @ snd (returned (fst (subprocess_run env [ADB_BIN, U ''pull'', device_tmp_record, out] (world s))))
                             else U ''Saved recording: '' @ out)]"
    and "workers (worker_step env tid s) = (workers s)[tid := Cleaning]"
    and "recording (worker_step env tid s) = recording s"
    and "world (worker_step env tid s) =
           snd (subprocess_run env [ADB_BIN, U ''pull'', device_tmp_record, out] (world s))"
    and "record_thread (worker_step env tid s) = record_thread s"
  using assms
  by (simp_all add: worker_step_unfold Let_def split_beta adb_cmd_fst adb_cmd_snd set_status_def emit_def)

lemma worker_clean:
  assumes "tid < length (workers s)" "workers s ! tid = Cleaning"
  shows "trace (worker_step env tid s) =
           trace s @ [Run [ADB_BIN, U ''shell'', U ''rm'', device_tmp_record]
                        (fst (subprocess_run env [ADB_BIN, U ''shell'', U ''rm'', device_tmp_record] (world s)))]"
    and "workers (worker_step env tid s) = (workers s)[tid := Finished]"
    and "recording (worker_step env tid s) = recording s"
    and "world (worker_step env tid s) =
           snd (subprocess_run env [ADB_BIN, U ''shell'', U ''rm'', device_tmp_record] (world s))"
    and "record_thread (worker_step env tid s) = record_thread s"
  using assms by (simp_all add: worker_step_unfold adb_cmd_snd)

lemma worker_finished:
  assumes "tid < length (workers s)" "workers s ! tid = Finished"
  shows "worker_step env tid s = s"
  using assms by (simp add: worker_step_unfold list_update_same_conv)

lemma exec_append: "exec env (as @ bs) s = exec env bs (exec env as s)"
  by (induction as arbitrary: s) simp_all

lemma exec_finished:
  "tid < length (workers s) \<Longrightarrow> workers s ! tid = Finished \<Longrightarrow>
   exec env (replicate n (WorkerStep tid)) s = s"
  by (induction n) (simp_all add: worker_finished)

lemma exec_polls:
  assumes "tid < length (workers s)" "workers s ! tid = Polling p out" "recording s"
  shows "trace (exec env (replicate k (WorkerStep tid)) s) = trace s @ replicate k (Sleep 200) \<and>
         workers (exec env (replicate k (WorkerStep tid)) s) = workers s \<and>
         recording (exec env (replicate k (WorkerStep tid)) s) \<and>
         record_thread (exec env (replicate k (WorkerStep tid)) s) = record_thread s \<and>
         (tool_contract env \<longrightarrow>
            local_files env (world (exec env (replicate k (WorkerStep tid)) s)) = local_files env (world s))"
  using assms
proof (induction k arbitrary: s)
  case 0
  then show ?case by simp
next
  case (Suc k)
  let ?s1 = "worker_step env tid s"
  note f = worker_poll_on [OF Suc.prems, of env]
  have p: "tid < length (workers ?s1)" "workers ?s1 ! tid = Polling p out" "recording ?s1"
    using f Suc.prems by simp_all
  have l: "tool_contract env \<longrightarrow> local_files env (world ?s1) = local_files env (world s)"
    by (simp add: f tool_contract_def)
  show ?case using Suc.IH [OF p] f l by (simp add: replicate_app_Cons_same)
qed

lemma start_recording_go:
  assumes "\<not> recording s" "fst (check_device_connected env s)"
  shows "trace (start_recording env s) =
           trace s @ [Run [ADB_BIN, U ''devices''] (fst (subprocess_run env [ADB_BIN, U ''devices''] (world s))),
                      ThreadStart (length (workers s)), Print (U ''Recording: ON'')]"
    and "workers (start_recording env s) = workers s @ [Created]"
    and "recording (start_recording env s)"
    and "record_thread (start_recording env s) = Some (length (workers s))"
    and "world (start_recording env s) = snd (subprocess_run env [ADB_BIN, U ''devices''] (world s))"
  using assms check_trace_present [OF assms(2)]
  by (simp_all add: start_recording_def split_beta Let_def set_status_def emit_def check_frame)

lemma start_recording_absent:
  "\<not> recording s \<Longrightarrow> \<not> fst (check_device_connected env s) \<Longrightarrow>
   start_recording env s = snd (check_device_connected env s)"
  by (simp add: start_recording_def split_beta)

lemma take_screenshot_absent:
  "\<not> fst (check_device_connected env s) \<Longrightarrow> take_screenshot env s = snd (check_device_connected env s)"
  by (simp add: take_screenshot_def split_beta)

lemma stop_recording_go:
  assumes "recording s"
  shows "trace (stop_recording s) = trace s @ [Print (U ''Recording: Stopping...'')]"
    and "workers (stop_recording s) = workers s"
    and "\<not> recording (stop_recording s)"
    and "record_thread (stop_recording s) = record_thread s"
    and "world (stop_recording s) = world s"
  using assms by (simp_all add: stop_recording_def set_status_def emit_def)

lemma contract_others:
  assumes "tool_contract env"
  shows "local_files env (snd (subprocess_Popen env argv w)) = local_files env w"
    and "local_files env (proc_terminate env p w) = local_files env w"
    and "local_files env (time_sleep env n w) = local_files env w"
  using assms by (simp_all add: tool_contract_def)


lemma check_cong:
  "subprocess_run e1 = subprocess_run e2 \<Longrightarrow>
   check_device_connected e1 s = check_device_connected e2 s"
  by (simp add: check_device_connected_def adb_cmd_def)

lemma demo_present: "fst (check_device_connected demo_env s)"
  by (simp add: demo_check)

lemma idle_fields: "\<not> recording idle" "workers idle = []" "trace idle = []" "world idle = []"
  by (simp_all add: idle_def)

lemma take_screenshot_pull_failure:
  assumes present: "fst (check_device_connected env s)"
    and ran: "Run [ADB_BIN, U ''pull'', device_tmp_screenshot, dst] oc
                \<in> set (new_events s (take_screenshot env s))"
    and err: "snd (returned oc) \<noteq> []"
  shows "Run [ADB_BIN, U ''shell'', U ''rm'', device_tmp_screenshot] oc'
           \<notin> set (new_events s (take_screenshot env s))"
  using present
proof (cases rule: take_screenshot_cases)
  case (capture_failed oc0 oc1)
  show ?thesis unfolding capture_failed(1) by simp
next
  case (pull_failed oc0 oc1 oc2)
  show ?thesis unfolding pull_failed(1) by simp
next
  case (saved oc0 oc1 oc2 oc3)
  from ran err saved(3) have False unfolding saved(1) by auto
  then show ?thesis ..
qed

section \<open>The screenshot flow\<close>

text \<open>
  Claim C4. When the device check reports a device and every command of the screenshot
  request completes without error output, the request runs exactly four commands: the
  device listing, the capture to the fixed temporary path, one pull of that path to
  \<open>screenshot_YYYYMMDD_HHMMSS.png\<close>, and one delete of the temporary path. With a tool
  whose successful pull writes its destination and whose other commands leave the working
  directory alone, the working directory gains exactly that one file.
\<close>

theorem take_screenshot_success:
  assumes present: "fst (check_device_connected env s)"
    and clean: "list_all no_stream_error (new_events s (take_screenshot env s))"
    and clock: "\<forall>w. valid_time (time_localtime env w)"
    and tool: "tool_contract env"
  shows "\<exists>stamp. stamp_shape stamp \<and>
           commands (new_events s (take_screenshot env s)) =
             [[ADB_BIN, U ''devices''],
              [ADB_BIN, U ''shell'', U ''screencap'', U ''-p'', device_tmp_screenshot],
              [ADB_BIN, U ''pull'', device_tmp_screenshot, U ''screenshot_'' @ stamp @ U ''.png''],
              [ADB_BIN, U ''shell'', U ''rm'', device_tmp_screenshot]] \<and>
           local_files env (world (take_screenshot env s)) =
             insert (U ''screenshot_'' @ stamp @ U ''.png'') (local_files env (world s))"
proof -
  let ?stamp = "strftime_Ymd_HMS (time_localtime env (world (snd (check_device_connected env s))))"
  have shape: "stamp_shape ?stamp" using clock by (simp add: strftime_shape)
  from present show ?thesis
  proof (cases rule: take_screenshot_cases)
    case (capture_failed oc0 oc1)
    from clean have "no_stream_error (Run [ADB_BIN, U ''shell'', U ''screencap'', U ''-p'', device_tmp_screenshot] oc1)"
      unfolding capture_failed(1) by simp
    then have "snd (returned oc1) = []" by (rule no_stream_error_returned)
    with capture_failed(2) show ?thesis by contradiction
  next
    case (pull_failed oc0 oc1 oc2)
    from clean have "no_stream_error (Run [ADB_BIN, U ''pull'', device_tmp_screenshot, U ''screenshot_'' @ ?stamp @ U ''.png''] oc2)"
      unfolding pull_failed(1) by simp
    then have "snd (returned oc2) = []" by (rule no_stream_error_returned)
    with pull_failed(3) show ?thesis by contradiction
  next
    case (saved oc0 oc1 oc2 oc3)
    from clean have ok: "no_stream_error (Run [ADB_BIN, U ''pull'', device_tmp_screenshot, U ''screenshot_'' @ ?stamp @ U ''.png''] oc2)"
      unfolding saved(1) by simp
    have c: "commands (new_events s (take_screenshot env s)) =
             [[ADB_BIN, U ''devices''],
              [ADB_BIN, U ''shell'', U ''screencap'', U ''-p'', device_tmp_screenshot],
              [ADB_BIN, U ''pull'', device_tmp_screenshot, U ''screenshot_'' @ ?stamp @ U ''.png''],
              [ADB_BIN, U ''shell'', U ''rm'', device_tmp_screenshot]]"
      unfolding saved(1) by (simp add: commands_def List.map_filter_simps)
    have f: "local_files env (world (take_screenshot env s)) =
             insert (U ''screenshot_'' @ ?stamp @ U ''.png'') (local_files env (world s))"
      using saved(4) [OF tool] ok by simp
    from shape c f show ?thesis by blast
  qed
qed

theorem take_screenshot_success_witness:
  "fst (check_device_connected demo_env idle) \<and>
   list_all no_stream_error (new_events idle (take_screenshot demo_env idle)) \<and>
   (\<forall>w. valid_time (time_localtime demo_env w)) \<and> tool_contract demo_env \<and>
   local_files demo_env (world (take_screenshot demo_env idle)) =
     {U ''screenshot_20240309_140500.png''}"
proof -
  have p: "fst (check_device_connected demo_env idle)" by (simp add: demo_check)
  have c: "list_all no_stream_error (new_events idle (take_screenshot demo_env idle))"
    unfolding demo_screenshot by (simp add: demo_run_def strip_def)
  obtain stamp where
    cmds: "commands (new_events idle (take_screenshot demo_env idle)) =
             [[ADB_BIN, U ''devices''],
              [ADB_BIN, U ''shell'', U ''screencap'', U ''-p'', device_tmp_screenshot],
              [ADB_BIN, U ''pull'', device_tmp_screenshot, U ''screenshot_'' @ stamp @ U ''.png''],
              [ADB_BIN, U ''shell'', U ''rm'', device_tmp_screenshot]]"
    and files: "local_files demo_env (world (take_screenshot demo_env idle)) =
             insert (U ''screenshot_'' @ stamp @ U ''.png'') (local_files demo_env (world idle))"
    using take_screenshot_success [OF p c demo_clock demo_contract] by blast
  from cmds have "U ''screenshot_'' @ stamp @ U ''.png'' = U ''screenshot_20240309_140500.png''"
    unfolding demo_screenshot by (simp add: commands_def)
  with files have "local_files demo_env (world (take_screenshot demo_env idle)) =
     {U ''screenshot_20240309_140500.png''}"
    by (simp add: demo_fields idle_def)
  with p c demo_clock demo_contract show ?thesis by blast
qed

text \<open>
  Claim C5. When the capture command or the pull command of a screenshot request returns
  a non-empty error text, that command is the last one of the request: the only thing
  that follows it is an error box carrying the text, and no delete of the temporary
  path is issued.
\<close>

theorem take_screenshot_stage_error:
  assumes present: "fst (check_device_connected env s)"
    and ran: "Run argv oc \<in> set (new_events s (take_screenshot env s))"
    and stage: "argv = [ADB_BIN, U ''shell'', U ''screencap'', U ''-p'', device_tmp_screenshot] \<or>
                (\<exists>dst. argv = [ADB_BIN, U ''pull'', device_tmp_screenshot, dst])"
    and err: "snd (returned oc) \<noteq> []"
  shows "(\<exists>before title msg. new_events s (take_screenshot env s) =
             before @ [Run argv oc, ShowError title (msg @ snd (returned oc))]) \<and>
         (\<forall>oc'. Run [ADB_BIN, U ''shell'', U ''rm'', device_tmp_screenshot] oc'
                   \<notin> set (new_events s (take_screenshot env s)))"
  using present
proof (cases rule: take_screenshot_cases)
  case (capture_failed oc0 oc1)
  from ran stage have a: "argv = [ADB_BIN, U ''shell'', U ''screencap'', U ''-p'', device_tmp_screenshot]" "oc = oc1"
    unfolding capture_failed(1) by auto
  have "new_events s (take_screenshot env s) =
          [Run [ADB_BIN, U ''devices''] oc0, Print (U ''Capturing screenshot on device...'')] @
          [Run argv oc, ShowError (U ''ADBB Error'') (U ''screencap failed:\<newline>'' @ snd (returned oc))]"
    unfolding capture_failed(1) a by simp
  then have "\<exists>before title msg. new_events s (take_screenshot env s) =
             before @ [Run argv oc, ShowError title (msg @ snd (returned oc))]" by blast
  moreover have "\<forall>oc'. Run [ADB_BIN, U ''shell'', U ''rm'', device_tmp_screenshot] oc'
                   \<notin> set (new_events s (take_screenshot env s))"
    unfolding capture_failed(1) by simp
  ultimately show ?thesis by simp
next
  case (pull_failed oc0 oc1 oc2)
  from ran stage err pull_failed(2) have a: "Run argv oc = Run [ADB_BIN, U ''pull'', device_tmp_screenshot, U ''screenshot_'' @
             strftime_Ymd_HMS (time_localtime env (world (snd (check_device_connected env s)))) @ U ''.png''] oc2"
    unfolding pull_failed(1) by auto
  have "new_events s (take_screenshot env s) =
          [Run [ADB_BIN, U ''devices''] oc0, Print (U ''Capturing screenshot on device...''),
           Run [ADB_BIN, U ''shell'', U ''screencap'', U ''-p'', device_tmp_screenshot] oc1,
           Print (U ''Pulling screenshot from device...'')] @
          [Run argv oc, ShowError (U ''ADBB Error'') (U ''pull failed:\<newline>'' @ snd (returned oc))]"
    unfolding pull_failed(1) using a by simp
  then have "\<exists>before title msg. new_events s (take_screenshot env s) =
             before @ [Run argv oc, ShowError title (msg @ snd (returned oc))]" by blast
  moreover have "\<forall>oc'. Run [ADB_BIN, U ''shell'', U ''rm'', device_tmp_screenshot] oc'
                   \<notin> set (new_events s (take_screenshot env s))"
    unfolding pull_failed(1) by simp
  ultimately show ?thesis by simp
next
  case (saved oc0 oc1 oc2 oc3)
  from ran stage err saved(2,3) have False
    unfolding saved(1) by auto
  then show ?thesis ..
qed


theorem take_screenshot_stage_error_witness:
  "(\<exists>before title msg. new_events idle (take_screenshot (failing_env (U ''pull'')) idle) =
      before @ [Run [ADB_BIN, U ''pull'', device_tmp_screenshot, U ''screenshot_20240309_140500.png'']
                  (Completed [] (U ''error: device offline'')),
                ShowError title (msg @ U ''error: device offline'')]) \<and>
   (\<forall>oc'. Run [ADB_BIN, U ''shell'', U ''rm'', device_tmp_screenshot] oc'
             \<notin> set (new_events idle (take_screenshot (failing_env (U ''pull'')) idle)))"
proof -
  have p: "fst (check_device_connected (failing_env (U ''pull'')) idle)"
    unfolding failing_check by simp
  have r: "Run [ADB_BIN, U ''pull'', device_tmp_screenshot, U ''screenshot_20240309_140500.png'']
             (Completed [] (U ''error: device offline''))
           \<in> set (new_events idle (take_screenshot (failing_env (U ''pull'')) idle))"
    unfolding failing_screenshot by simp
  have e: "snd (returned (Completed [] (U ''error: device offline''))) \<noteq> []"
    by (simp add: strip_def is_space_def)
  have v: "snd (returned (Completed [] (U ''error: device offline''))) = U ''error: device offline''"
    by (simp add: strip_def is_space_def)
  show ?thesis
    using take_screenshot_stage_error [OF p r _ e] unfolding v by blast
qed

section \<open>Start and stop requests\<close>

text \<open>
  Claim C1 (as amended). A start request issued while the recording flag is already true
  is a no-op: it returns the state it was given with nothing but the notice
  "Recording is already in progress." added to the log, so the flag, the stored thread
  handle, the list of workers, the number of live workers and the world are unchanged
  and no worker is spawned.
\<close>

theorem start_recording_reentry:
  assumes "recording s"
  shows "start_recording env s =
           s\<lparr>trace := trace s @ [ShowInfo (U ''Info'') (U ''Recording is already in progress.'')]\<rparr> \<and>
         recording (start_recording env s) = recording s \<and>
         record_thread (start_recording env s) = record_thread s \<and>
         workers (start_recording env s) = workers s \<and>
         world (start_recording env s) = world s \<and>
         new_events s (start_recording env s) =
           [ShowInfo (U ''Info'') (U ''Recording is already in progress.'')] \<and>
         active_workers (start_recording env s) = active_workers s"
  using assms
  by (simp add: start_recording_def emit_def new_events_def active_workers_def)

theorem start_recording_reentry_witness:
  "recording (start_recording demo_env idle) \<and>
   workers (start_recording demo_env (start_recording demo_env idle)) =
     workers (start_recording demo_env idle) \<and>
   active_workers (start_recording demo_env (start_recording demo_env idle)) =
     active_workers (start_recording demo_env idle)"
proof -
  have r: "recording (start_recording demo_env idle)"
    using idle_fields(1) demo_present by (rule start_recording_go)
  show ?thesis using start_recording_reentry [OF r, of demo_env] r by blast
qed

text \<open>
  The unamended claim C1 also says that no schedule of start and stop requests has two
  workers alive at once. It has: after start, stop and the first worker leaving its loop,
  a second start spawns a second worker while the first has not yet terminated the
  capture process or pulled the file.
\<close>

theorem two_workers_alive:
  "\<not> active_workers
       (exec demo_env [StartRecording, WorkerStep 0, StopRecording, WorkerStep 0, StartRecording] idle)
     \<le> 1"
proof -
  define s1 where "s1 = start_recording demo_env idle"
  define s2 where "s2 = worker_step demo_env 0 s1"
  define s3 where "s3 = stop_recording s2"
  define s4 where "s4 = worker_step demo_env 0 s3"
  define s5 where "s5 = start_recording demo_env s4"
  have present: "fst (check_device_connected demo_env s)" for s by (simp add: demo_check)
  have i: "\<not> recording idle" "workers idle = []" by (simp_all add: idle_def)
  have 1: "workers s1 = [Created]" "recording s1"
    unfolding s1_def using start_recording_go [OF i(1) present] i(2) by simp_all
  have b: "0 < length (workers s1)" "workers s1 ! 0 = Created" using 1 by simp_all
  have 2: "\<exists>out. workers s2 = [Polling 7 out]" "recording s2"
    unfolding s2_def using worker_begin [OF b, of demo_env] 1 by (simp_all add: demo_fields)
  then obtain out where w2: "workers s2 = [Polling 7 out]" by blast
  have 3: "workers s3 = [Polling 7 out]" "\<not> recording s3"
    unfolding s3_def using stop_recording_go [OF 2(2)] w2 by simp_all
  have c: "0 < length (workers s3)" "workers s3 ! 0 = Polling 7 out" using 3 by simp_all
  have 4: "workers s4 = [Stopping 7 out]" "\<not> recording s4"
    unfolding s4_def using worker_poll_off [OF c 3(2), of demo_env] 3 by simp_all
  have 5: "workers s5 = [Stopping 7 out, Created]"
    unfolding s5_def using start_recording_go [OF 4(2) present] 4 by simp
  have "exec demo_env [StartRecording, WorkerStep 0, StopRecording, WorkerStep 0, StartRecording] idle = s5"
    by (simp add: s1_def s2_def s3_def s4_def s5_def)
  then show ?thesis using 5 by (simp add: active_workers_def)
qed

text \<open>
  Claim C8. A stop request issued while the recording flag is false changes nothing but
  the log, to which it adds the notice "No recording is currently running.": the flag,
  the thread handle, the workers and the world stay as they were, and no terminate,
  pull or delete is issued.
\<close>

theorem stop_recording_idle:
  assumes "\<not> recording s"
  shows "stop_recording s =
           s\<lparr>trace := trace s @ [ShowInfo (U ''Info'') (U ''No recording is currently running.'')]\<rparr> \<and>
         recording (stop_recording s) = recording s \<and>
         record_thread (stop_recording s) = record_thread s \<and>
         workers (stop_recording s) = workers s \<and>
         world (stop_recording s) = world s \<and>
         new_events s (stop_recording s) =
           [ShowInfo (U ''Info'') (U ''No recording is currently running.'')]"
  using assms by (simp add: stop_recording_def emit_def new_events_def)

theorem stop_recording_idle_witness:
  "\<not> recording idle \<and> workers (stop_recording idle) = [] \<and> \<not> recording (stop_recording idle) \<and>
   new_events idle (stop_recording idle) =
     [ShowInfo (U ''Info'') (U ''No recording is currently running.'')]"
proof -
  have h: "\<not> recording idle" by (simp add: idle_def)
  have w: "workers idle = []" by (simp add: idle_def)
  show ?thesis using stop_recording_idle [OF h] h w by (simp add: new_events_def)
qed

section \<open>Failure of the device check\<close>

text \<open>
  Claim C3. When the device listing command returns a non-empty error text, or the
  invocation raises, the device check returns absence. A screenshot request then runs no
  command besides the listing, and a start request runs no command besides the listing,
  spawns no worker and leaves the recording flag false.
\<close>

theorem device_check_failure:
  assumes "snd (returned (fst (subprocess_run env [ADB_BIN, U ''devices''] (world s)))) \<noteq> [] \<or>
           (\<exists>e. fst (subprocess_run env [ADB_BIN, U ''devices''] (world s)) = Raised e)"
  shows "\<not> fst (check_device_connected env s) \<and>
         commands (new_events s (take_screenshot env s)) = [[ADB_BIN, U ''devices'']] \<and>
         (\<not> recording s \<longrightarrow>
            commands (new_events s (start_recording env s)) = [[ADB_BIN, U ''devices'']] \<and>
            workers (start_recording env s) = workers s \<and>
            \<not> recording (start_recording env s))"
proof -
  have absent: "\<not> fst (check_device_connected env s)"
    using assms check_failed_absent check_raised_absent by blast
  obtain d where t: "trace (snd (check_device_connected env s)) =
     trace s @ [Run [ADB_BIN, U ''devices''] (fst (subprocess_run env [ADB_BIN, U ''devices''] (world s))), d]"
     and d: "argv_of d = None"
    using check_trace_absent [OF absent] by blast
  have c: "commands (new_events s (snd (check_device_connected env s))) = [[ADB_BIN, U ''devices'']]"
    unfolding new_events_def t using d by (simp add: commands_def List.map_filter_simps)
  show ?thesis
    using absent c by (simp add: take_screenshot_absent start_recording_absent check_frame)
qed

theorem device_check_failure_witness:
  "\<not> fst (check_device_connected missing_env idle) \<and>
   commands (new_events idle (take_screenshot missing_env idle)) = [[ADB_BIN, U ''devices'']] \<and>
   commands (new_events idle (start_recording missing_env idle)) = [[ADB_BIN, U ''devices'']] \<and>
   workers (start_recording missing_env idle) = workers idle \<and>
   \<not> recording (start_recording missing_env idle)"
proof -
  have h: "snd (returned (fst (subprocess_run missing_env [ADB_BIN, U ''devices''] (world idle)))) \<noteq> [] \<or>
           (\<exists>e. fst (subprocess_run missing_env [ADB_BIN, U ''devices''] (world idle)) = Raised e)"
    by (simp add: missing_env_def demo_env_def)
  show ?thesis using device_check_failure [OF h] idle_fields(1) by blast
qed

section \<open>The recording worker\<close>

text \<open>
  Claim C7. When spawning the capture process raises, the worker sets the recording flag
  to false, reports "Failed to start screenrecord: ..." with the text of the exception,
  and returns: its whole log is the starting message, the failed spawn and the failure
  message, with no terminate, pull or delete, and further turns of this worker do nothing.
\<close>

theorem record_worker_spawn_failure:
  assumes "tid < length (workers s)" and "workers s ! tid = Created"
    and "fst (subprocess_Popen env [ADB_BIN, U ''shell'', U ''screenrecord'', device_tmp_record] (world s))
           = PopenRaised e"
  shows "\<not> recording (worker_step env tid s) \<and>
         workers (worker_step env tid s) ! tid = Finished \<and>
         new_events s (worker_step env tid s) =
           [Print (U ''Starting '' @ ADB_BIN @ U '' screenrecord...''),
            Popen [ADB_BIN, U ''shell'', U ''screenrecord'', device_tmp_record] (PopenRaised e),
            Print (U ''Failed to start screenrecord: '' @ e)] \<and>
         (\<forall>n. exec env (replicate n (WorkerStep tid)) (worker_step env tid s) = worker_step env tid s)"
proof -
  note f = worker_begin [OF assms(1,2), of env]
  have w: "workers (worker_step env tid s) = (workers s)[tid := Finished]"
    unfolding f(2) assms(3) by simp
  have fin: "tid < length (workers (worker_step env tid s))" "workers (worker_step env tid s) ! tid = Finished"
    using w assms(1) by simp_all
  have r: "\<not> recording (worker_step env tid s)" unfolding f(3) assms(3) by simp
  have t: "new_events s (worker_step env tid s) =
           [Print (U ''Starting '' @ ADB_BIN @ U '' screenrecord...''),
            Popen [ADB_BIN, U ''shell'', U ''screenrecord'', device_tmp_record] (PopenRaised e),
            Print (U ''Failed to start screenrecord: '' @ e)]"
    unfolding new_events_def f(1) assms(3) by simp
  show ?thesis using r fin(2) t exec_finished [OF fin] by blast
qed

theorem record_worker_spawn_failure_witness:
  "\<not> recording (worker_step popen_failing_env 0 (start_recording popen_failing_env idle)) \<and>
   workers (worker_step popen_failing_env 0 (start_recording popen_failing_env idle)) ! 0 = Finished"
proof -
  let ?s = "start_recording popen_failing_env idle"
  have "check_device_connected popen_failing_env idle = check_device_connected demo_env idle"
    by (rule check_cong) (simp add: popen_failing_env_def)
  then have p: "fst (check_device_connected popen_failing_env idle)" using demo_present by simp
  note g = start_recording_go [OF idle_fields(1) p]
  have a: "0 < length (workers ?s)" "workers ?s ! 0 = Created"
    unfolding g(2) by (simp_all add: idle_fields)
  have f: "fst (subprocess_Popen popen_failing_env
                  [ADB_BIN, U ''shell'', U ''screenrecord'', device_tmp_record] (world ?s))
             = PopenRaised (U ''[Errno 12] Cannot allocate memory'')"
    by (simp add: popen_failing_env_def)
  show ?thesis using record_worker_spawn_failure [OF a f] by blast
qed

text \<open>
  Claim C10. In the recording flow the delete of the device-side temporary file follows
  the pull whatever the pull returned: from the point before the pull, the worker's next
  two pieces log the pull, the status line (the pull error or the saved message) and the
  delete, in every case. In the screenshot flow a pull that returns an error text is
  followed by no delete.
\<close>

theorem record_worker_cleanup_unconditional:
  assumes "tid < length (workers s)" and "workers s ! tid = Pulling out"
  shows "(\<exists>oc oc'. new_events s (exec env [WorkerStep tid, WorkerStep tid] s) =
            [Print (U ''Pulling video from device...''),
             Run [ADB_BIN, U ''pull'', device_tmp_record, out] oc,
             Print (if snd (returned oc) \<noteq> [] then U ''Pull error: '' @ snd (returned oc)
                    else U ''Saved recording: '' @ out),
             Run [ADB_BIN, U ''shell'', U ''rm'', device_tmp_record] oc']) \<and>
         workers (exec env [WorkerStep tid, WorkerStep tid] s) ! tid = Finished \<and>
         (\<forall>s2 dst oc2 oc3.
            fst (check_device_connected env s2) \<and>
            Run [ADB_BIN, U ''pull'', device_tmp_screenshot, dst] oc2
              \<in> set (new_events s2 (take_screenshot env s2)) \<and>
            snd (returned oc2) \<noteq> [] \<longrightarrow>
            Run [ADB_BIN, U ''shell'', U ''rm'', device_tmp_screenshot] oc3
              \<notin> set (new_events s2 (take_screenshot env s2)))"
proof -
  let ?s1 = "worker_step env tid s"
  note f = worker_pull [OF assms, of env]
  have c: "tid < length (workers ?s1)" "workers ?s1 ! tid = Cleaning"
    using f(2) assms(1) by simp_all
  note g = worker_clean [OF c, of env]
  have t: "new_events s (worker_step env tid ?s1) =
            [Print (U ''Pulling video from device...''),
             Run [ADB_BIN, U ''pull'', device_tmp_record, out]
               (fst (subprocess_run env [ADB_BIN, U ''pull'', device_tmp_record, out] (world s))),
             Print (if snd (returned (fst (subprocess_run env [ADB_BIN, U ''pull'', device_tmp_record, out] (world s)))) \<noteq> []
                    then U ''Pull error: '' @ snd (returned (fst (subprocess_run env [ADB_BIN, U ''pull'', device_tmp_record, out] (world s))))
                    else U ''Saved recording: '' @ out),
             Run [ADB_BIN, U ''shell'', U ''rm'', device_tmp_record]
               (fst (subprocess_run env [ADB_BIN, U ''shell'', U ''rm'', device_tmp_record] (world ?s1)))]"
    unfolding new_events_def g(1) f(1) by simp
  have w: "workers (worker_step env tid ?s1) ! tid = Finished"
    unfolding g(2) using c(1) by simp
  have e: "exec env [WorkerStep tid, WorkerStep tid] s = worker_step env tid ?s1" by simp
  have rec: "\<exists>oc oc'. new_events s (exec env [WorkerStep tid, WorkerStep tid] s) =
            [Print (U ''Pulling video from device...''),
             Run [ADB_BIN, U ''pull'', device_tmp_record, out] oc,
             Print (if snd (returned oc) \<noteq> [] then U ''Pull error: '' @ snd (returned oc)
                    else U ''Saved recording: '' @ out),
             Run [ADB_BIN, U ''shell'', U ''rm'', device_tmp_record] oc']"
    unfolding e using t by blast
  have fin: "workers (exec env [WorkerStep tid, WorkerStep tid] s) ! tid = Finished"
    unfolding e using w by simp
  show ?thesis using rec fin take_screenshot_pull_failure by blast
qed

theorem record_worker_cleanup_unconditional_witness:
  "(\<exists>oc oc'. new_events (idle\<lparr>workers := [Pulling (U ''record_20240309_140500.mp4'')]\<rparr>)
            (exec (failing_env (U ''pull'')) [WorkerStep 0, WorkerStep 0]
               (idle\<lparr>workers := [Pulling (U ''record_20240309_140500.mp4'')]\<rparr>)) =
          [Print (U ''Pulling video from device...''),
           Run [ADB_BIN, U ''pull'', device_tmp_record, U ''record_20240309_140500.mp4''] oc,
           Print (if snd (returned oc) \<noteq> [] then U ''Pull error: '' @ snd (returned oc)
                  else U ''Saved recording: '' @ U ''record_20240309_140500.mp4''),
           Run [ADB_BIN, U ''shell'', U ''rm'', device_tmp_record] oc']) \<and>
   Run [ADB_BIN, U ''shell'', U ''rm'', device_tmp_screenshot] (Completed [] [])
     \<notin> set (new_events idle (take_screenshot (failing_env (U ''pull'')) idle))"
proof -
  let ?s = "idle\<lparr>workers := [Pulling (U ''record_20240309_140500.mp4'')]\<rparr>"
  let ?env = "failing_env (U ''pull'')"
  have a: "0 < length (workers ?s)" "workers ?s ! 0 = Pulling (U ''record_20240309_140500.mp4'')"
    by simp_all
  have p: "fst (check_device_connected ?env idle)"
    unfolding failing_check by simp
  have r: "Run [ADB_BIN, U ''pull'', device_tmp_screenshot, U ''screenshot_20240309_140500.png'']
             (Completed [] (U ''error: device offline''))
           \<in> set (new_events idle (take_screenshot ?env idle))"
    unfolding failing_screenshot by simp
  have e: "snd (returned (Completed [] (U ''error: device offline''))) \<noteq> []"
    by (simp add: strip_def is_space_def)
  show ?thesis
    using record_worker_cleanup_unconditional [OF a, of ?env] p r e by blast
qed

section \<open>A whole recording session\<close>

text \<open>
  Claim C6. Take a session that starts from a state with the flag false and a device
  present, and whose capture process is spawned: start, the worker entering its body,
  any number of polls, stop, and the worker running to its end. Its log is fixed: the
  capture process is terminated once, exactly one pull of the fixed temporary recording
  path is attempted, to \<open>record_YYYYMMDD_HHMMSS.mp4\<close>, and the status line after it is
  the saved message when the pull returned no error text and "Pull error: ..." with the
  error text when it did. With a tool whose pull writes its destination exactly when it
  completes without error output, and whose other commands leave the working directory
  alone, the working directory gains that one file in the first case and nothing in the
  second.
\<close>

theorem recording_session:
  assumes idle: "\<not> recording s"
    and present: "fst (check_device_connected env s)"
    and spawn: "fst (subprocess_Popen env [ADB_BIN, U ''shell'', U ''screenrecord'', device_tmp_record]
                       (world (start_recording env s))) = Started proc"
    and clock: "\<forall>w. valid_time (time_localtime env w)"
    and tool: "tool_contract env"
  shows "\<exists>stamp oc0 oc oc'.
           stamp_shape stamp \<and>
           new_events s (exec env (session (length (workers s)) k) s) =
             [Run [ADB_BIN, U ''devices''] oc0, ThreadStart (length (workers s)),
              Print (U ''Recording: ON''),
              Print (U ''Starting '' @ ADB_BIN @ U '' screenrecord...''),
              Popen [ADB_BIN, U ''shell'', U ''screenrecord'', device_tmp_record] (Started proc)] @
             replicate k (Sleep 200) @
             [Print (U ''Recording: Stopping...''),
              Print (U ''Stopping recording, please wait...''),
              Terminate proc, Sleep 1000,
              Print (U ''Pulling video from device...''),
              Run [ADB_BIN, U ''pull'', device_tmp_record, U ''record_'' @ stamp @ U ''.mp4''] oc,
              Print (if snd (returned oc) \<noteq> [] then U ''Pull error: '' @ snd (returned oc)
                     else U ''Saved recording: '' @ U ''record_'' @ stamp @ U ''.mp4''),
              Run [ADB_BIN, U ''shell'', U ''rm'', device_tmp_record] oc'] \<and>
           local_files env (world (exec env (session (length (workers s)) k) s)) =
             (if no_stream_error (Run [ADB_BIN, U ''pull'', device_tmp_record, U ''record_'' @ stamp @ U ''.mp4''] oc)
              then insert (U ''record_'' @ stamp @ U ''.mp4'') (local_files env (world s))
              else local_files env (world s)) \<and>
           (snd (returned oc) \<noteq> [] \<longrightarrow>
              local_files env (world (exec env (session (length (workers s)) k) s)) =
                local_files env (world s)) \<and>
           workers (exec env (session (length (workers s)) k) s) ! length (workers s) = Finished \<and>
           \<not> recording (exec env (session (length (workers s)) k) s)"
proof -
  define tid where "tid = length (workers s)"
  define s1 where "s1 = start_recording env s"
  define s2 where "s2 = worker_step env tid s1"
  define s3 where "s3 = exec env (replicate k (WorkerStep tid)) s2"
  define s4 where "s4 = stop_recording s3"
  define s5 where "s5 = worker_step env tid s4"
  define s6 where "s6 = worker_step env tid s5"
  define s7 where "s7 = worker_step env tid s6"
  define s8 where "s8 = worker_step env tid s7"
  define stamp where "stamp = strftime_Ymd_HMS (time_localtime env (world s1))"
  define out where "out = U ''record_'' @ stamp @ U ''.mp4''"
  define oc0 where "oc0 = fst (subprocess_run env [ADB_BIN, U ''devices''] (world s))"
  define oc where "oc = fst (subprocess_run env [ADB_BIN, U ''pull'', device_tmp_record, out] (world s6))"
  define oc' where "oc' = fst (subprocess_run env [ADB_BIN, U ''shell'', U ''rm'', device_tmp_record] (world s7))"
  have run: "exec env (session (length (workers s)) k) s = s8"
    unfolding session_def tid_def [symmetric]
    by (simp add: exec_append s1_def s2_def s3_def s4_def s5_def s6_def s7_def s8_def)
  have shape: "stamp_shape stamp" unfolding stamp_def using clock by (simp add: strftime_shape)
  note a1 = start_recording_go [OF idle present, folded s1_def tid_def oc0_def]
  have l1: "local_files env (world s1) = local_files env (world s)"
    unfolding a1(5) by (simp add: contract_run [OF tool] is_pull_def)
  have b1: "tid < length (workers s1)" "workers s1 ! tid = Created"
    unfolding a1(2) tid_def by simp_all
  note a2 = worker_begin [OF b1, of env, folded s2_def, unfolded spawn [folded s1_def]]
  have t2: "trace s2 = trace s1 @ [Print (U ''Starting '' @ ADB_BIN @ U '' screenrecord...''),
              Popen [ADB_BIN, U ''shell'', U ''screenrecord'', device_tmp_record] (Started proc)]"
    using a2(1) by simp
  have w2: "workers s2 = (workers s1)[tid := Polling proc out]"
    using a2(2) unfolding out_def stamp_def by simp
  have r2: "recording s2" using a2(3) a1(3) by simp
  have l2: "local_files env (world s2) = local_files env (world s1)"
    unfolding a2(4) by (rule contract_others [OF tool])
  have b2: "tid < length (workers s2)" "workers s2 ! tid = Polling proc out"
    using w2 b1(1) by simp_all
  note a3 = exec_polls [OF b2 r2, of env k, folded s3_def]
  have l3: "local_files env (world s3) = local_files env (world s2)" using a3 tool by simp
  have r3: "recording s3" using a3 by simp
  have t3: "trace s3 = trace s2 @ replicate k (Sleep 200)" using a3 by simp
  note a4 = stop_recording_go [OF r3, folded s4_def]
  have b4: "tid < length (workers s4)" "workers s4 ! tid = Polling proc out"
    using a4(2) a3 b2 by simp_all
  have a5: "s5 = s4\<lparr>workers := (workers s4)[tid := Stopping proc out]\<rparr>"
    unfolding s5_def using b4 a4(3) by (rule worker_poll_off)
  have b5: "tid < length (workers s5)" "workers s5 ! tid = Stopping proc out"
    unfolding a5 using b4(1) by simp_all
  note a6 = worker_stop [OF b5, of env, folded s6_def]
  have l6: "local_files env (world s6) = local_files env (world s5)"
    unfolding a6(4) by (simp add: contract_others [OF tool])
  have b6: "tid < length (workers s6)" "workers s6 ! tid = Pulling out"
    unfolding a6(2) using b5(1) by simp_all
  note a7 = worker_pull [OF b6, of env, folded s7_def oc_def]
  have l7: "local_files env (world s7) =
              (if no_stream_error (Run [ADB_BIN, U ''pull'', device_tmp_record, out] oc)
               then insert out (local_files env (world s6)) else local_files env (world s6))"
    unfolding a7(4) oc_def by (simp add: contract_run [OF tool] is_pull_def)
  have b7: "tid < length (workers s7)" "workers s7 ! tid = Cleaning"
    unfolding a7(2) using b6(1) by simp_all
  note a8 = worker_clean [OF b7, of env, folded s8_def oc'_def]
  have l8: "local_files env (world s8) = local_files env (world s7)"
    unfolding a8(4) by (simp add: contract_run [OF tool] is_pull_def ADB_BIN_def)
  have fin: "workers s8 ! tid = Finished" unfolding a8(2) using b7(1) by simp
  have rec: "\<not> recording s8" unfolding a8(3) a7(3) a6(3) a5 using a4(3) by simp
  have w45: "world s5 = world s4" "trace s5 = trace s4" unfolding a5 by simp_all
  have files: "local_files env (world s8) =
             (if no_stream_error (Run [ADB_BIN, U ''pull'', device_tmp_record, out] oc)
              then insert out (local_files env (world s)) else local_files env (world s))"
    unfolding l8 l7 l6 w45 a4(5) l3 l2 l1 by simp
  have tr: "new_events s s8 =
             [Run [ADB_BIN, U ''devices''] oc0, ThreadStart tid, Print (U ''Recording: ON''),
              Print (U ''Starting '' @ ADB_BIN @ U '' screenrecord...''),
              Popen [ADB_BIN, U ''shell'', U ''screenrecord'', device_tmp_record] (Started proc)] @
             replicate k (Sleep 200) @
             [Print (U ''Recording: Stopping...''),
              Print (U ''Stopping recording, please wait...''),
              Terminate proc, Sleep 1000,
              Print (U ''Pulling video from device...''),
              Run [ADB_BIN, U ''pull'', device_tmp_record, out] oc,
              Print (if snd (returned oc) \<noteq> [] then U ''Pull error: '' @ snd (returned oc)
                     else U ''Saved recording: '' @ out),
              Run [ADB_BIN, U ''shell'', U ''rm'', device_tmp_record] oc']"
    unfolding new_events_def a8(1) a7(1) a6(1) w45 a4(1) t3 t2 a1(1) by simp
  have unchanged: "snd (returned oc) \<noteq> [] \<longrightarrow> local_files env (world s8) = local_files env (world s)"
    unfolding files using no_stream_error_returned by auto
  show ?thesis
    unfolding run using shape tr files unchanged fin rec unfolding out_def tid_def by blast
qed

theorem recording_session_witness:
  "workers (exec demo_env (session 0 2) idle) ! 0 = Finished \<and>
   \<not> recording (exec demo_env (session 0 2) idle) \<and>
   (\<exists>stamp oc. stamp_shape stamp \<and>
      local_files demo_env (world (exec demo_env (session 0 2) idle)) =
        (if no_stream_error (Run [ADB_BIN, U ''pull'', device_tmp_record, U ''record_'' @ stamp @ U ''.mp4''] oc)
         then insert (U ''record_'' @ stamp @ U ''.mp4'') (local_files demo_env (world idle))
         else local_files demo_env (world idle)))"
proof -
  have sp: "fst (subprocess_Popen demo_env [ADB_BIN, U ''shell'', U ''screenrecord'', device_tmp_record]
                   (world (start_recording demo_env idle))) = Started 7"
    by (simp add: demo_fields)
  have w: "length (workers idle) = 0" by (simp add: idle_fields)
  show ?thesis
    using recording_session [OF idle_fields(1) demo_present sp demo_clock demo_contract, of 2]
    unfolding w by blast
qed

end
